theory Spec2Isabelle
  imports Complex_Main
begin

section \<open>Data model\<close>

text \<open>
  The screener works on pandas data frames of floating-point columns. The
  numbers stored in a frame or a widget (prices, percentages, volumes, bounds)
  are binary64 floats holding a number; each is a rational and is kept as a
  \<open>rat\<close>, and comparing two of them is exact. What the code computes from them
  in floating point goes through the operations of the next section. A Python
  exception is a value of \<open>pyexn\<close>, and code that may raise returns \<open>pyexn + 'a\<close>
  with \<open>Inl\<close> for the exception.
\<close>

datatype pyexn = IndexError | KeyError | ValueError | ProviderError

text \<open>
  One row of the live snapshot frame (\<open>ak.stock_zh_a_spot_em()\<close>), with the columns
  the screener reads: code, name, last price, percent change, volume ratio,
  turnover rate, total market capitalisation, traded amount, industry tag and
  the capitalisation column used by the industry-leader ranking.
\<close>

record snapshot =
  code :: string
  name :: string
  last_price :: rat
  pct_change :: rat
  volume_ratio :: rat
  turnover :: rat
  total_cap :: rat
  amount :: rat
  industry :: string
  cap :: rat

text \<open>
  One row of a historical frame (\<open>ak.stock_zh_a_hist\<close>, \<open>ak.stock_zh_a_hist_min_em\<close>):
  close, high, low, volume and the session's percent change.
\<close>

record bar =
  close :: rat
  high :: rat
  low :: rat
  volume :: rat
  pct_chg :: rat

text \<open>
  The market-data provider. \<open>hist_daily p c d\<close> is the daily history of symbol \<open>c\<close>
  from \<open>d\<close> days before now until now; \<open>hist_minute p c\<close> is today's one-minute
  history; \<open>spot p\<close> is the live snapshot. Each call may raise.
\<close>

record provider =
  spot :: "pyexn + snapshot list"
  hist_daily :: "string \<Rightarrow> nat \<Rightarrow> pyexn + bar list"
  hist_minute :: "string \<Rightarrow> pyexn + bar list"

section \<open>Floating-point operations\<close>

text \<open>
  A Python string is a list of Unicode code points.
\<close>

type_synonym pystr = "nat list"

text \<open>
  The screener computes in binary64 floats, through Python's float operators,
  the built-in \<open>float\<close> and the methods of pandas series. These operations are
  not code of the repository: the functions below that compute with floats take
  them as the parameter \<open>F\<close>, over a type \<open>'f\<close> of float values (numbers,
  infinities and NaN), and nothing is assumed of their results beyond the
  hypotheses a theorem states. The numbers stored in frames and widgets are
  kept as exact rationals, and \<open>of_exact F q\<close> is the float holding \<open>q\<close>.

  \<open>flt\<close>, \<open>fle\<close> and \<open>feq\<close> are the comparisons \<open><\<close>, \<open><=\<close> and \<open>==\<close>; \<open>float_str\<close> and
  \<open>float_int\<close> are \<open>float\<close> on a string and on an int, \<open>None\<close> when it raises;
  \<open>rolling_mean_f F w\<close> is \<open>.rolling(w).mean()\<close> on a column of numbers, \<open>diff_f\<close> is
  \<open>.diff()\<close> and \<open>mean_f\<close> is \<open>.mean()\<close>.
\<close>

record 'f float_ops =
  of_exact :: "rat \<Rightarrow> 'f"
  fsub :: "'f \<Rightarrow> 'f \<Rightarrow> 'f"
  fmul :: "'f \<Rightarrow> 'f \<Rightarrow> 'f"
  fdiv :: "'f \<Rightarrow> 'f \<Rightarrow> 'f"
  fneg :: "'f \<Rightarrow> 'f"
  flt :: "'f \<Rightarrow> 'f \<Rightarrow> bool"
  fle :: "'f \<Rightarrow> 'f \<Rightarrow> bool"
  feq :: "'f \<Rightarrow> 'f \<Rightarrow> bool"
  is_nan :: "'f \<Rightarrow> bool"
  float_str :: "pystr \<Rightarrow> 'f option"
  float_int :: "int \<Rightarrow> 'f option"
  rolling_mean_f :: "nat \<Rightarrow> rat list \<Rightarrow> 'f list"
  diff_f :: "'f list \<Rightarrow> 'f list"
  mean_f :: "'f list \<Rightarrow> 'f"

text \<open>\<open>a > b\<close> is \<open>b < a\<close>.\<close>

definition fgt :: "'f float_ops \<Rightarrow> 'f \<Rightarrow> 'f \<Rightarrow> bool" where
  "fgt F a b = flt F b a"

text \<open>
  Two facts of pandas and of IEEE arithmetic that the trend classifier relies
  on. A rolling mean and a difference have the length of their input. NaN
  arises and spreads as follows: a rolling mean is NaN while its window is not
  full; a difference is NaN at the first position and after a NaN; the mean of
  a series with no number in it is NaN; every comparison with NaN is false.
\<close>

definition keeps_length :: "'f float_ops \<Rightarrow> bool" where
  "keeps_length F =
     ((\<forall>w xs. length (rolling_mean_f F w xs) = length xs)
      \<and> (\<forall>s. length (diff_f F s) = length s))"

definition nan_laws :: "'f float_ops \<Rightarrow> bool" where
  "nan_laws F =
     ((\<forall>w xs i. i < length xs \<and> i + 1 < w \<longrightarrow> is_nan F (rolling_mean_f F w xs ! i))
      \<and> (\<forall>s i. i < length s \<and> (i = 0 \<or> is_nan F (s ! (i - 1))) \<longrightarrow> is_nan F (diff_f F s ! i))
      \<and> (\<forall>s. list_all (is_nan F) s \<longrightarrow> is_nan F (mean_f F s))
      \<and> (\<forall>x y. is_nan F x \<longrightarrow>
            \<not> flt F x y \<and> \<not> flt F y x \<and> \<not> fle F x y \<and> \<not> fle F y x))"

section \<open>Sequencing, indexing and exact arithmetic\<close>

text \<open>Sequencing of code that may raise: the first exception ends the computation.\<close>

definition ebind :: "pyexn + 'a \<Rightarrow> ('a \<Rightarrow> pyexn + 'b) \<Rightarrow> pyexn + 'b" where
  "ebind m f = (case m of Inl e \<Rightarrow> Inl e | Inr x \<Rightarrow> f x)"

text \<open>
  \<open>s.iloc[i]\<close>: position \<open>i\<close>, counted from the end when negative; a position
  outside the series raises IndexError.
\<close>

definition iloc :: "'a list \<Rightarrow> int \<Rightarrow> pyexn + 'a" where
  "iloc xs i =
     (if 0 \<le> i \<and> i < int (length xs) then Inr (xs ! nat i)
      else if i < 0 \<and> - i \<le> int (length xs) then Inr (xs ! nat (int (length xs) + i))
      else Inl IndexError)"

text \<open>\<open>s.iloc[i:j]\<close>: the slice between two clipped positions; it never raises.\<close>

definition clip_pos :: "nat \<Rightarrow> int \<Rightarrow> nat" where
  "clip_pos n k = (if k < 0 then nat (max 0 (int n + k)) else min (nat k) n)"

definition iloc_slice :: "'a list \<Rightarrow> int \<Rightarrow> int \<Rightarrow> 'a list" where
  "iloc_slice xs i j =
     (let a = clip_pos (length xs) i; b = clip_pos (length xs) j
      in take (b - a) (drop a xs))"

text \<open>
  The series operations in exact arithmetic, on \<open>rat option\<close> with \<open>None\<close> for NaN.
  They model the indicator series of the technical block of the filter
  pipeline, and they give the instance \<open>exact_ops\<close> of the floating-point
  operations that the examples are evaluated with; on the examples binary64
  gives the same comparisons.

  \<open>s.rolling(w).mean()\<close> on a series without NaN: NaN before the window is
  full, then the mean of the trailing \<open>w\<close> values.
\<close>

definition rolling_mean :: "nat \<Rightarrow> rat list \<Rightarrow> rat option list" where
  "rolling_mean w xs =
     map (\<lambda>i. if i + 1 < w then None
              else Some (sum_list (take w (drop (i + 1 - w) xs)) / of_nat w))
       [0..<length xs]"

text \<open>Float subtraction and comparisons with NaN.\<close>

definition nan_sub :: "rat option \<Rightarrow> rat option \<Rightarrow> rat option" where
  "nan_sub a b = (case a of None \<Rightarrow> None
                  | Some x \<Rightarrow> (case b of None \<Rightarrow> None | Some y \<Rightarrow> Some (x - y)))"

definition nan_gt :: "rat option \<Rightarrow> rat option \<Rightarrow> bool" where
  "nan_gt a b = (case a of None \<Rightarrow> False
                 | Some x \<Rightarrow> (case b of None \<Rightarrow> False | Some y \<Rightarrow> x > y))"

definition nan_le :: "rat option \<Rightarrow> rat option \<Rightarrow> bool" where
  "nan_le a b = (case a of None \<Rightarrow> False
                 | Some x \<Rightarrow> (case b of None \<Rightarrow> False | Some y \<Rightarrow> x \<le> y))"

text \<open>\<open>s.diff()\<close>: NaN at the first position, then the difference to the value before.\<close>

definition diff :: "rat option list \<Rightarrow> rat option list" where
  "diff xs =
     map (\<lambda>i. if i = 0 then None else nan_sub (xs ! i) (xs ! (i - 1))) [0..<length xs]"

text \<open>\<open>s.mean()\<close>: the mean of the values that are not NaN; NaN when there is none.\<close>

definition mean_skipna :: "rat option list \<Rightarrow> rat option" where
  "mean_skipna xs =
     (let vs = List.map_filter (\<lambda>v. v) xs
      in if vs = [] then None else Some (sum_list vs / of_nat (length vs)))"

text \<open>Python's \<open>a and b\<close> on conditions that may raise: \<open>b\<close> is reached only when \<open>a\<close> holds.\<close>

definition and_then :: "pyexn + bool \<Rightarrow> pyexn + bool \<Rightarrow> pyexn + bool" where
  "and_then a b = ebind a (\<lambda>x. if x then b else Inr False)"

section \<open>Trend classifier\<close>

text \<open>\<open>s.iloc[-1] > 0\<close> and \<open>s.iloc[-lookback_days:-1].mean() <= 0\<close>.\<close>

definition last_positive :: "'f float_ops \<Rightarrow> 'f list \<Rightarrow> pyexn + bool" where
  "last_positive F s = ebind (iloc s (- 1)) (\<lambda>v. Inr (fgt F v (of_exact F 0)))"

definition prior_not_rising :: "'f float_ops \<Rightarrow> int \<Rightarrow> 'f list \<Rightarrow> pyexn + bool" where
  "prior_not_rising F lookback_days s =
     Inr (fle F (mean_f F (iloc_slice s (- lookback_days) (- 1))) (of_exact F 0))"

text \<open>The chained comparison \<open>a.iloc[-1] > b.iloc[-1] > c.iloc[-1] > d.iloc[-1]\<close>.\<close>

definition chain_gt4 ::
  "'f float_ops \<Rightarrow> 'f list \<Rightarrow> 'f list \<Rightarrow> 'f list \<Rightarrow> 'f list \<Rightarrow> pyexn + bool" where
  "chain_gt4 F a b c d =
     ebind (iloc a (- 1)) (\<lambda>va. ebind (iloc b (- 1)) (\<lambda>vb.
       if \<not> fgt F va vb then Inr False
       else ebind (iloc c (- 1)) (\<lambda>vc.
         if \<not> fgt F vb vc then Inr False
         else ebind (iloc d (- 1)) (\<lambda>vd. Inr (fgt F vc vd)))))"

definition is_turning_up :: "'f float_ops \<Rightarrow> rat list \<Rightarrow> pyexn + bool" where
  "is_turning_up F closes =
     (let ma5_slope = diff_f F (rolling_mean_f F 5 closes);
          ma10_slope = diff_f F (rolling_mean_f F 10 closes);
          ma20_slope = diff_f F (rolling_mean_f F 20 closes);
          lookback_days = 3
      in and_then (last_positive F ma5_slope)
        (and_then (prior_not_rising F lookback_days ma5_slope)
        (and_then (last_positive F ma10_slope)
        (and_then (prior_not_rising F lookback_days ma10_slope)
        (and_then (last_positive F ma20_slope)
                  (prior_not_rising F lookback_days ma20_slope))))))"

definition is_bullish :: "'f float_ops \<Rightarrow> rat list \<Rightarrow> pyexn + bool" where
  "is_bullish F closes =
     (let ma5 = rolling_mean_f F 5 closes; ma10 = rolling_mean_f F 10 closes;
          ma20 = rolling_mean_f F 20 closes; ma30 = rolling_mean_f F 30 closes
      in and_then (chain_gt4 F ma5 ma10 ma20 ma30)
        (and_then (last_positive F (diff_f F ma5))
        (and_then (last_positive F (diff_f F ma10))
        (and_then (last_positive F (diff_f F ma20))
                  (last_positive F (diff_f F ma30))))))"

text \<open>The statements of \<open>check_ma_trend\<close> after the test for an empty frame.\<close>

definition ma_trend_body :: "'f float_ops \<Rightarrow> bar list \<Rightarrow> pyexn + bool \<times> bar option" where
  "ma_trend_body F hist_data =
     ebind (is_turning_up F (map close hist_data)) (\<lambda>turning.
     ebind (is_bullish F (map close hist_data)) (\<lambda>bullish.
     ebind (iloc hist_data (- 1)) (\<lambda>latest.
       Inr (turning \<or> bullish, Some latest))))"

text \<open>
  \<open>check_ma_trend(stock_code)\<close> with the cache passed in and returned. A cached
  symbol is answered from the cache; an empty frame and an exception give
  \<open>(False, None)\<close> and store nothing; a computed result is stored.
\<close>

type_synonym trend_cache = "string \<rightharpoonup> bool \<times> bar option"

definition check_ma_trend ::
  "'f float_ops \<Rightarrow> provider \<Rightarrow> trend_cache \<Rightarrow> string
   \<Rightarrow> (bool \<times> bar option) \<times> trend_cache" where
  "check_ma_trend F p cache stock_code =
     (case cache stock_code of
        Some r \<Rightarrow> (r, cache)
      | None \<Rightarrow>
          (case hist_daily p stock_code 60 of
             Inl e \<Rightarrow> ((False, None), cache)
           | Inr hist_data \<Rightarrow>
               if hist_data = [] then ((False, None), cache)
               else (case ma_trend_body F hist_data of
                       Inl e \<Rightarrow> ((False, None), cache)
                     | Inr result \<Rightarrow> (result, cache(stock_code \<mapsto> result)))))"

text \<open>
  The classification as the specification words it, on a series of closes \<open>xs\<close>
  whose last bar is \<open>t\<close>: the slopes of the moving average of window \<open>w\<close> are its
  first differences; the average turns up when its latest slope is above 0 and
  the mean of the two slopes before it is at most 0.
\<close>

definition ma_slope :: "'f float_ops \<Rightarrow> nat \<Rightarrow> rat list \<Rightarrow> 'f list" where
  "ma_slope F w xs = diff_f F (rolling_mean_f F w xs)"

definition turns_up :: "'f float_ops \<Rightarrow> nat \<Rightarrow> rat list \<Rightarrow> bool" where
  "turns_up F w xs =
     (let t = length xs - 1
      in fgt F (ma_slope F w xs ! t) (of_exact F 0)
         \<and> fle F (mean_f F [ma_slope F w xs ! (t - 2), ma_slope F w xs ! (t - 1)])
              (of_exact F 0))"

definition spec_turning_up :: "'f float_ops \<Rightarrow> rat list \<Rightarrow> bool" where
  "spec_turning_up F xs = (turns_up F 5 xs \<and> turns_up F 10 xs \<and> turns_up F 20 xs)"

definition spec_bullish :: "'f float_ops \<Rightarrow> rat list \<Rightarrow> bool" where
  "spec_bullish F xs =
     (let t = length xs - 1
      in fgt F (rolling_mean_f F 5 xs ! t) (rolling_mean_f F 10 xs ! t)
         \<and> fgt F (rolling_mean_f F 10 xs ! t) (rolling_mean_f F 20 xs ! t)
         \<and> fgt F (rolling_mean_f F 20 xs ! t) (rolling_mean_f F 30 xs ! t)
         \<and> fgt F (ma_slope F 5 xs ! t) (of_exact F 0)
         \<and> fgt F (ma_slope F 10 xs ! t) (of_exact F 0)
         \<and> fgt F (ma_slope F 20 xs ! t) (of_exact F 0)
         \<and> fgt F (ma_slope F 30 xs ! t) (of_exact F 0))"

section \<open>Trading-signal scorer\<close>

text \<open>
  The four strings returned by \<open>get_price_position\<close> (low, high, middle, unknown)
  and the four advice strings of \<open>analyze_trading_signals\<close> (buy, watch, risk
  warning, hold).
\<close>

datatype position = Low | High | Mid | Unknown

datatype advice = Buy | Watch | RiskWarning | Hold

text \<open>
  \<open>get_price_position(code, current_price)\<close>: the position of the current price
  inside the range of the closes of the last 120 days. Any exception of the
  body is caught and gives unknown.
\<close>

definition get_price_position :: "'f float_ops \<Rightarrow> provider \<Rightarrow> string \<Rightarrow> rat \<Rightarrow> position" where
  "get_price_position F p c current_price =
     (case hist_daily p c 120 of
        Inl e \<Rightarrow> Unknown
      | Inr hist_data \<Rightarrow>
          if hist_data = [] then Unknown
          else
            let price_max = Max (set (map close hist_data));
                price_min = Min (set (map close hist_data));
                price_range = fsub F (of_exact F price_max) (of_exact F price_min)
            in if feq F price_range (of_exact F 0) then Unknown
               else
                 let pos = fmul F (fdiv F (fsub F (of_exact F current_price)
                                                  (of_exact F price_min)) price_range)
                             (of_exact F 100)
                 in if flt F pos (of_exact F 30) then Low
                    else if fgt F pos (of_exact F 70) then High
                    else Mid)"

text \<open>The two counters of the loop body, threaded through its statements.\<close>

record scores =
  rating_score :: int
  risk_score :: int

definition add_rating :: "int \<Rightarrow> scores \<Rightarrow> scores" where
  "add_rating k s = s\<lparr>rating_score := rating_score s + k\<rparr>"

definition add_risk :: "int \<Rightarrow> scores \<Rightarrow> scores" where
  "add_risk k s = s\<lparr>risk_score := risk_score s + k\<rparr>"

definition score_change :: "rat \<Rightarrow> scores \<Rightarrow> scores" where
  "score_change price_change s =
     (if price_change > 5 then add_rating 2 s
      else if price_change > 2 then add_rating 1 s
      else s)"

definition score_volume_ratio :: "rat \<Rightarrow> scores \<Rightarrow> scores" where
  "score_volume_ratio vr s = (if vr > 2 then add_rating 1 s else s)"

definition score_turnover :: "rat \<Rightarrow> scores \<Rightarrow> scores" where
  "score_turnover t s = (if t > 5 then add_rating 1 s else s)"

definition score_position :: "position \<Rightarrow> scores \<Rightarrow> scores" where
  "score_position pos s =
     (if pos = Low then add_rating 2 s
      else if pos = High then add_risk 2 s
      else s)"

definition final_advice :: "scores \<Rightarrow> advice" where
  "final_advice s =
     (if rating_score s \<ge> 4 \<and> risk_score s \<le> 1 then Buy
      else if rating_score s \<ge> 2 \<and> risk_score s \<le> 2 then Watch
      else if risk_score s \<ge> 3 then RiskWarning
      else Hold)"

text \<open>The dictionary appended to \<open>results\<close> for one row.\<close>

record signal =
  sig_code :: string
  sig_name :: string
  sig_price :: rat
  sig_change :: rat
  sig_volume_ratio :: rat
  sig_turnover :: rat
  sig_position :: position
  sig_advice :: advice
  sig_rating :: int
  sig_risk :: int

definition score_row :: "position \<Rightarrow> snapshot \<Rightarrow> scores" where
  "score_row pos row =
     score_position pos
       (score_turnover (turnover row)
         (score_volume_ratio (volume_ratio row)
           (score_change (pct_change row)
             \<lparr>rating_score = 0, risk_score = 0\<rparr>)))"

definition analyze_row :: "'f float_ops \<Rightarrow> provider \<Rightarrow> snapshot \<Rightarrow> signal" where
  "analyze_row F p row =
     (let pos = get_price_position F p (code row) (last_price row);
          s = score_row pos row
      in \<lparr>sig_code = code row, sig_name = name row, sig_price = last_price row,
          sig_change = pct_change row, sig_volume_ratio = volume_ratio row,
          sig_turnover = turnover row, sig_position = pos,
          sig_advice = final_advice s,
          sig_rating = rating_score s, sig_risk = risk_score s\<rparr>)"

text \<open>\<open>analyze_trading_signals(df)\<close>: one result per row, in row order.\<close>

definition analyze_trading_signals ::
  "'f float_ops \<Rightarrow> provider \<Rightarrow> snapshot list \<Rightarrow> signal list" where
  "analyze_trading_signals F p df = map (analyze_row F p) df"

text \<open>The scoring rule as the specification words it: a sum of independent terms.\<close>

definition spec_rating :: "position \<Rightarrow> snapshot \<Rightarrow> int" where
  "spec_rating pos row =
     (if pct_change row > 5 then 2 else if pct_change row > 2 then 1 else 0)
     + (if volume_ratio row > 2 then 1 else 0)
     + (if turnover row > 5 then 1 else 0)
     + (if pos = Low then 2 else 0)"

definition spec_risk :: "position \<Rightarrow> int" where
  "spec_risk pos = (if pos = High then 2 else 0)"

definition spec_label :: "int \<Rightarrow> int \<Rightarrow> advice" where
  "spec_label rating risk =
     (if rating \<ge> 4 \<and> risk \<le> 1 then Buy
      else if rating \<ge> 2 \<and> risk \<le> 2 then Watch
      else if risk \<ge> 3 then RiskWarning
      else Hold)"

section \<open>Filter pipeline\<close>

text \<open>
  The values of the filter widgets when \<open>filter_stocks\<close> runs: the ten range
  bounds, the six check boxes and the four spin boxes (whose ranges start at 0).
\<close>

record criteria =
  turnover_min :: rat
  turnover_max :: rat
  price_change_min :: rat
  price_change_max :: rat
  volume_ratio_min :: rat
  volume_ratio_max :: rat
  price_min :: rat
  price_max :: rat
  market_cap_min :: rat
  market_cap_max :: rat
  remove_green_cb :: bool
  remove_limit_up_cb :: bool
  volume_increase_cb :: bool
  ma_alignment_cb :: bool
  macd_golden_cb :: bool
  kdj_golden_cb :: bool
  hot_stocks_n :: nat
  top_n_spin :: nat
  limit_up_times :: nat
  months_spin :: nat

text \<open>The five range conditions, applied one after the other.\<close>

definition turnover_range :: "criteria \<Rightarrow> snapshot list \<Rightarrow> snapshot list" where
  "turnover_range c df =
     filter (\<lambda>r. turnover r \<ge> turnover_min c \<and> turnover r \<le> turnover_max c) df"

definition price_change_range :: "criteria \<Rightarrow> snapshot list \<Rightarrow> snapshot list" where
  "price_change_range c df =
     filter (\<lambda>r. pct_change r \<ge> price_change_min c \<and> pct_change r \<le> price_change_max c) df"

definition volume_ratio_range :: "criteria \<Rightarrow> snapshot list \<Rightarrow> snapshot list" where
  "volume_ratio_range c df =
     (let df1 = filter (\<lambda>r. volume_ratio r \<ge> volume_ratio_min c) df
      in if volume_ratio_max c > 0
         then filter (\<lambda>r. volume_ratio r \<le> volume_ratio_max c) df1
         else df1)"

definition price_range :: "criteria \<Rightarrow> snapshot list \<Rightarrow> snapshot list" where
  "price_range c df =
     filter (\<lambda>r. last_price r \<ge> price_min c \<and> last_price r \<le> price_max c) df"

definition market_cap_range :: "criteria \<Rightarrow> snapshot list \<Rightarrow> snapshot list" where
  "market_cap_range c df =
     (let min_cap = market_cap_min c * 100000000;
          max_cap = market_cap_max c * 100000000
      in filter (\<lambda>r. total_cap r \<ge> min_cap \<and> total_cap r \<le> max_cap) df)"

definition range_filters :: "criteria \<Rightarrow> snapshot list \<Rightarrow> snapshot list" where
  "range_filters c df =
     market_cap_range c (price_range c (volume_ratio_range c
       (price_change_range c (turnover_range c df))))"

text \<open>The two check boxes that read the snapshot only.\<close>

definition checkbox_filters :: "criteria \<Rightarrow> snapshot list \<Rightarrow> snapshot list" where
  "checkbox_filters c df =
     (let df1 = (if remove_green_cb c then filter (\<lambda>r. pct_change r > 0) df else df)
      in if remove_limit_up_cb c then filter (\<lambda>r. pct_change r < 19 / 2) df1 else df1)"

text \<open>
  Rising intraday volume: the last three one-minute volumes, when there are
  three, each above the one before.
\<close>

definition volume_rising :: "bar list \<Rightarrow> bool" where
  "volume_rising hist_data =
     (let recent_volumes = drop (length hist_data - 3) (map volume hist_data)
      in length recent_volumes = 3
         \<and> recent_volumes ! 1 > recent_volumes ! 0
         \<and> recent_volumes ! 2 > recent_volumes ! 1)"

fun volume_increasing_stocks :: "provider \<Rightarrow> snapshot list \<Rightarrow> pyexn + string list" where
  "volume_increasing_stocks p [] = Inr []"
| "volume_increasing_stocks p (row # rows) =
     ebind (hist_minute p (code row)) (\<lambda>hist_data.
     ebind (volume_increasing_stocks p rows) (\<lambda>rest.
       Inr (if hist_data \<noteq> [] \<and> volume_rising hist_data then code row # rest else rest)))"

definition volume_increase_filter :: "provider \<Rightarrow> criteria \<Rightarrow> snapshot list \<Rightarrow> pyexn + snapshot list" where
  "volume_increase_filter p c df =
     (if volume_increase_cb c
      then ebind (volume_increasing_stocks p df) (\<lambda>codes.
             Inr (filter (\<lambda>r. code r \<in> set codes) df))
      else Inr df)"

subsection \<open>Technical indicators of the pipeline\<close>

text \<open>
  \<open>s.ewm(span=n, adjust=False).mean()\<close> on a series without NaN: the first value,
  then \<open>(1 - a) * previous + a * current\<close> with \<open>a = 2 / (n + 1)\<close>.
\<close>

fun ewm_recursive :: "rat \<Rightarrow> rat \<Rightarrow> rat list \<Rightarrow> rat list" where
  "ewm_recursive a prev [] = []"
| "ewm_recursive a prev (x # xs) =
     (let y = (1 - a) * prev + a * x in y # ewm_recursive a y xs)"

definition ewm_span :: "nat \<Rightarrow> rat list \<Rightarrow> rat list" where
  "ewm_span n xs =
     (case xs of [] \<Rightarrow> [] | x # rest \<Rightarrow> x # ewm_recursive (2 / (of_nat n + 1)) x rest)"

text \<open>
  \<open>s.ewm(com=k).mean()\<close> (adjusted weights, NaN kept in place): NaN until the
  first number; then the weighted mean of the numbers so far, the weight of each
  falling by \<open>1 - a\<close> per position with \<open>a = 1 / (1 + k)\<close>; at a NaN the last mean
  is repeated.
\<close>

fun ewm_adjusted :: "rat \<Rightarrow> rat option \<Rightarrow> rat \<Rightarrow> rat option list \<Rightarrow> rat option list" where
  "ewm_adjusted a weighted old_wt [] = []"
| "ewm_adjusted a None old_wt (cur # rest) = cur # ewm_adjusted a cur old_wt rest"
| "ewm_adjusted a (Some w) old_wt (None # rest) =
     Some w # ewm_adjusted a (Some w) (old_wt * (1 - a)) rest"
| "ewm_adjusted a (Some w) old_wt (Some x # rest) =
     (let wt = old_wt * (1 - a);
          w' = (wt * w + x) / (wt + 1)
      in Some w' # ewm_adjusted a (Some w') (wt + 1) rest)"

definition ewm_com :: "nat \<Rightarrow> rat option list \<Rightarrow> rat option list" where
  "ewm_com k xs =
     (case xs of [] \<Rightarrow> [] | x # rest \<Rightarrow> x # ewm_adjusted (1 / (1 + of_nat k)) x 1 rest)"

text \<open>\<open>s.rolling(w, min_periods=w).min()\<close> and \<open>.max()\<close> on a series without NaN.\<close>

definition rolling_min :: "nat \<Rightarrow> rat list \<Rightarrow> rat option list" where
  "rolling_min w xs =
     map (\<lambda>i. if i + 1 < w then None else Some (Min (set (take w (drop (i + 1 - w) xs)))))
       [0..<length xs]"

definition rolling_max :: "nat \<Rightarrow> rat list \<Rightarrow> rat option list" where
  "rolling_max w xs =
     map (\<lambda>i. if i + 1 < w then None else Some (Max (set (take w (drop (i + 1 - w) xs)))))
       [0..<length xs]"

text \<open>
  The raw stochastic value \<open>(close - low9) / (high9 - low9) * 100\<close>. A zero range
  gives NaN: with each close inside its bar's low and high the numerator is zero
  too.
\<close>

definition rsv_value :: "rat \<Rightarrow> rat option \<Rightarrow> rat option \<Rightarrow> rat option" where
  "rsv_value c lo hi =
     (case lo of None \<Rightarrow> None
      | Some l \<Rightarrow> (case hi of None \<Rightarrow> None
          | Some h \<Rightarrow> if h - l = 0 then None else Some ((c - l) / (h - l) * 100)))"

definition rsv_series :: "bar list \<Rightarrow> rat option list" where
  "rsv_series hist_data =
     (let low_list = rolling_min 9 (map low hist_data);
          high_list = rolling_max 9 (map high hist_data)
      in map (\<lambda>i. rsv_value (close (hist_data ! i)) (low_list ! i) (high_list ! i))
           [0..<length hist_data])"

text \<open>
  The three sub-checks of the technical block. Each gives the value of the
  condition whose negation makes the loop \<open>continue\<close>.
\<close>

definition ma_alignment_ok :: "bar list \<Rightarrow> pyexn + bool" where
  "ma_alignment_ok hist_data =
     ebind (iloc (rolling_mean 5 (map close hist_data)) (- 1)) (\<lambda>ma5.
     ebind (iloc (rolling_mean 10 (map close hist_data)) (- 1)) (\<lambda>ma10.
     ebind (iloc (rolling_mean 20 (map close hist_data)) (- 1)) (\<lambda>ma20.
       Inr (nan_gt ma5 ma10 \<and> nan_gt ma10 ma20))))"

definition macd_line :: "bar list \<Rightarrow> rat list" where
  "macd_line hist_data =
     (let exp1 = ewm_span 12 (map close hist_data);
          exp2 = ewm_span 26 (map close hist_data)
      in map (\<lambda>(a, b). a - b) (zip exp1 exp2))"

definition macd_golden_ok :: "bar list \<Rightarrow> pyexn + bool" where
  "macd_golden_ok hist_data =
     (let macd = macd_line hist_data;
          signal = ewm_span 9 macd
      in ebind (iloc macd (- 1)) (\<lambda>m1. ebind (iloc signal (- 1)) (\<lambda>s1.
           if \<not> m1 > s1 then Inr False
           else ebind (iloc macd (- 2)) (\<lambda>m2. ebind (iloc signal (- 2)) (\<lambda>s2.
                  Inr (m2 \<le> s2))))))"

definition kdj_golden_ok :: "bar list \<Rightarrow> pyexn + bool" where
  "kdj_golden_ok hist_data =
     (let k = ewm_com 2 (rsv_series hist_data);
          d = ewm_com 2 k
      in ebind (iloc k (- 1)) (\<lambda>k1. ebind (iloc d (- 1)) (\<lambda>d1.
           if \<not> nan_gt k1 d1 then Inr False
           else ebind (iloc k (- 2)) (\<lambda>k2. ebind (iloc d (- 2)) (\<lambda>d2.
                  Inr (nan_le k2 d2))))))"

text \<open>
  One pass of the technical loop: whether the row's code is appended to
  \<open>technical_stocks\<close>. A non-empty history runs the enabled sub-checks in order
  and the first failing one skips the row; an empty history appends it.
\<close>

definition technical_pass :: "provider \<Rightarrow> criteria \<Rightarrow> snapshot \<Rightarrow> pyexn + bool" where
  "technical_pass p c row =
     ebind (hist_daily p (code row) 60) (\<lambda>hist_data.
       if hist_data \<noteq> [] then
         ebind (if ma_alignment_cb c then ma_alignment_ok hist_data else Inr True) (\<lambda>ok1.
           if \<not> ok1 then Inr False
           else ebind (if macd_golden_cb c then macd_golden_ok hist_data else Inr True) (\<lambda>ok2.
             if \<not> ok2 then Inr False
             else ebind (if kdj_golden_cb c then kdj_golden_ok hist_data else Inr True) (\<lambda>ok3.
               Inr ok3)))
       else Inr True)"

fun technical_stocks :: "provider \<Rightarrow> criteria \<Rightarrow> snapshot list \<Rightarrow> pyexn + string list" where
  "technical_stocks p c [] = Inr []"
| "technical_stocks p c (row # rows) =
     ebind (technical_pass p c row) (\<lambda>keep.
     ebind (technical_stocks p c rows) (\<lambda>rest.
       Inr (if keep then code row # rest else rest)))"

definition technical_filter :: "provider \<Rightarrow> criteria \<Rightarrow> snapshot list \<Rightarrow> pyexn + snapshot list" where
  "technical_filter p c df =
     (if ma_alignment_cb c \<or> macd_golden_cb c \<or> kdj_golden_cb c
      then ebind (technical_stocks p c df) (\<lambda>codes.
             Inr (filter (\<lambda>r. code r \<in> set codes) df))
      else Inr df)"

text \<open>
  The history a pass of the technical loop works on (empty when the fetch
  raises), and the drop condition of the block as the specification words it:
  the history is not empty and some enabled sub-check fails.
\<close>

definition history60 :: "provider \<Rightarrow> string \<Rightarrow> bar list" where
  "history60 p c = (case hist_daily p c 60 of Inl e \<Rightarrow> [] | Inr h \<Rightarrow> h)"

definition tech_dropped :: "criteria \<Rightarrow> bar list \<Rightarrow> bool" where
  "tech_dropped c h =
     (h \<noteq> [] \<and> ((ma_alignment_cb c \<and> ma_alignment_ok h = Inr False)
                \<or> (macd_golden_cb c \<and> macd_golden_ok h = Inr False)
                \<or> (kdj_golden_cb c \<and> kdj_golden_ok h = Inr False)))"

subsection \<open>Ranking stages and the limit-up count\<close>

text \<open>\<open>df.nlargest(n, column)\<close>: the \<open>n\<close> rows of largest value, ties in frame order.\<close>

definition nlargest :: "nat \<Rightarrow> (snapshot \<Rightarrow> rat) \<Rightarrow> snapshot list \<Rightarrow> snapshot list" where
  "nlargest n key df = take n (sort_key (\<lambda>r. - key r) df)"

definition hot_stocks_filter :: "criteria \<Rightarrow> snapshot list \<Rightarrow> snapshot list" where
  "hot_stocks_filter c df =
     (if hot_stocks_n c > 0 then nlargest (hot_stocks_n c) amount df else df)"

text \<open>\<open>s.unique()\<close>: the distinct values in order of first appearance.\<close>

definition unique :: "'a list \<Rightarrow> 'a list" where
  "unique xs = rev (remdups (rev xs))"

definition industry_leaders :: "criteria \<Rightarrow> snapshot list \<Rightarrow> string list" where
  "industry_leaders c df =
     concat (map (\<lambda>ind. map code (nlargest (top_n_spin c) cap
                           (filter (\<lambda>r. industry r = ind) df)))
               (unique (map industry df)))"

definition industry_filter :: "criteria \<Rightarrow> snapshot list \<Rightarrow> snapshot list" where
  "industry_filter c df =
     (if top_n_spin c > 0
      then filter (\<lambda>r. code r \<in> set (industry_leaders c df)) df
      else df)"

text \<open>The number of sessions of a history with a percent change of 9.5 or more.\<close>

definition limit_up_count :: "bar list \<Rightarrow> nat" where
  "limit_up_count hist_data = length (filter (\<lambda>b. pct_chg b \<ge> 19 / 2) hist_data)"

fun limit_up_stocks :: "provider \<Rightarrow> nat \<Rightarrow> nat \<Rightarrow> snapshot list \<Rightarrow> pyexn + string list" where
  "limit_up_stocks p months required_times [] = Inr []"
| "limit_up_stocks p months required_times (row # rows) =
     ebind (hist_daily p (code row) (30 * months)) (\<lambda>hist_data.
     ebind (limit_up_stocks p months required_times rows) (\<lambda>rest.
       Inr (if hist_data \<noteq> [] \<and> limit_up_count hist_data = required_times
            then code row # rest else rest)))"

definition limit_up_filter :: "provider \<Rightarrow> criteria \<Rightarrow> snapshot list \<Rightarrow> pyexn + snapshot list" where
  "limit_up_filter p c df =
     (if limit_up_times c > 0 \<and> months_spin c > 0
      then ebind (limit_up_stocks p (months_spin c) (limit_up_times c) df) (\<lambda>codes.
             Inr (filter (\<lambda>r. code r \<in> set codes) df))
      else Inr df)"

text \<open>The history the limit-up count of a row is taken from (empty when the fetch raises).\<close>

definition window_history :: "provider \<Rightarrow> criteria \<Rightarrow> string \<Rightarrow> bar list" where
  "window_history p c s =
     (case hist_daily p s (30 * months_spin c) of Inl e \<Rightarrow> [] | Inr h \<Rightarrow> h)"

text \<open>
  \<open>filter_stocks()\<close>: the stages in source order inside one \<open>try\<close>. An exception
  anywhere is caught by the single handler of the function, which returns
  \<open>None\<close>.
\<close>

definition filter_stages :: "provider \<Rightarrow> criteria \<Rightarrow> pyexn + snapshot list" where
  "filter_stages p c =
     ebind (spot p) (\<lambda>df.
     ebind (volume_increase_filter p c (checkbox_filters c (range_filters c df))) (\<lambda>df1.
     ebind (technical_filter p c df1) (\<lambda>df2.
       limit_up_filter p c (industry_filter c (hot_stocks_filter c df2)))))"

definition filter_stocks :: "provider \<Rightarrow> criteria \<Rightarrow> snapshot list option" where
  "filter_stocks p c = (case filter_stages p c of Inl e \<Rightarrow> None | Inr df \<Rightarrow> Some df)"

section \<open>Limit-up analysis loop\<close>




section \<open>Money-flow magnitude parser\<close>

text \<open>
  The two unit characters are U+4EBF (hundred million) and U+4E07 (ten
  thousand). \<open>ascii\<close> gives the code points of an ASCII text.
\<close>

definition ascii :: "string \<Rightarrow> pystr" where
  "ascii s = map of_char s"

definition unit_yi :: nat where "unit_yi = 20159"

definition unit_wan :: nat where "unit_wan = 19975"

definition comma :: nat where "comma = 44"

definition minus :: nat where "minus = 45"

text \<open>The code points \<open>str.strip()\<close> removes from both ends of a string.\<close>

definition is_space :: "nat \<Rightarrow> bool" where
  "is_space c =
     ((9 \<le> c \<and> c \<le> 13) \<or> (28 \<le> c \<and> c \<le> 32) \<or> c = 133 \<or> c = 160 \<or> c = 5760
      \<or> (8192 \<le> c \<and> c \<le> 8202) \<or> c = 8232 \<or> c = 8233 \<or> c = 8239 \<or> c = 8287
      \<or> c = 12288)"

definition py_strip :: "pystr \<Rightarrow> pystr" where
  "py_strip s = rev (dropWhile is_space (rev (dropWhile is_space s)))"

text \<open>\<open>s.replace(c, '')\<close> for a single character \<open>c\<close>, and \<open>s.startswith(c)\<close>.\<close>

definition remove_char :: "nat \<Rightarrow> pystr \<Rightarrow> pystr" where
  "remove_char c s = filter (\<lambda>x. x \<noteq> c) s"

definition startswith_char :: "pystr \<Rightarrow> nat \<Rightarrow> bool" where
  "startswith_char s c = (case s of [] \<Rightarrow> False | x # rest \<Rightarrow> x = c)"

text \<open>The argument of \<open>convert_flow_value\<close>: a float, an int, a string or anything else.\<close>

datatype 'f pyvalue = PyFloat 'f | PyInt int | PyStr pystr | PyOther

text \<open>
  \<open>convert_flow_value(value)\<close>. The unit test is \<open>'U+4EBF' in value\<close>, then
  \<open>'U+4E07' in value\<close>: the unit may stand anywhere in the text and each of its
  occurrences is removed before \<open>float\<close> reads the rest. The products are float
  products. The handler of the function turns every exception into the int 0,
  which is the float zero in every comparison.
\<close>

definition flow_amount :: "'f float_ops \<Rightarrow> pystr \<Rightarrow> 'f option" where
  "flow_amount F v =
     (if unit_yi \<in> set v
      then map_option (\<lambda>base_value. fmul F base_value (of_exact F 100000000))
             (float_str F (remove_char unit_yi v))
      else if unit_wan \<in> set v
      then map_option (\<lambda>base_value. fmul F base_value (of_exact F 10000))
             (float_str F (remove_char unit_wan v))
      else float_str F v)"

definition convert_flow_value :: "'f float_ops \<Rightarrow> 'f pyvalue \<Rightarrow> 'f" where
  "convert_flow_value F v =
     (case v of
        PyFloat x \<Rightarrow> x
      | PyInt n \<Rightarrow> (case float_int F n of None \<Rightarrow> of_exact F 0 | Some x \<Rightarrow> x)
      | PyOther \<Rightarrow> of_exact F 0
      | PyStr s \<Rightarrow>
          let v1 = remove_char comma (py_strip s);
              is_negative = startswith_char v1 minus;
              v2 = (if is_negative then tl v1 else v1)
          in (case flow_amount F v2 of
                None \<Rightarrow> of_exact F 0
              | Some result \<Rightarrow> if is_negative then fneg F result else result))"

text \<open>
  The parts of the parse as the specification names them: the string after
  stripping whitespace and thousands separators, whether it carries a leading
  minus sign, the text left for unit parsing once the sign is removed, and the
  sign put back on a result.
\<close>

definition cleaned :: "pystr \<Rightarrow> pystr" where
  "cleaned s = remove_char comma (py_strip s)"

definition negative :: "pystr \<Rightarrow> bool" where
  "negative s = startswith_char (cleaned s) minus"

definition magnitude_text :: "pystr \<Rightarrow> pystr" where
  "magnitude_text s = (if negative s then tl (cleaned s) else cleaned s)"

definition with_sign :: "'f float_ops \<Rightarrow> pystr \<Rightarrow> 'f \<Rightarrow> 'f" where
  "with_sign F s x = (if negative s then fneg F x else x)"

text \<open>
  The parse of a string as the specification words it, with the unit as a
  suffix: a text ending in a unit is its prefix times the unit's factor, any
  other text is taken as it is, and a text \<open>float\<close> cannot read gives 0.
\<close>

definition suffix_parse :: "'f float_ops \<Rightarrow> pystr \<Rightarrow> 'f" where
  "suffix_parse F s =
     (let v = magnitude_text s
      in if v \<noteq> [] \<and> last v = unit_yi then
           (case float_str F (butlast v) of
              None \<Rightarrow> of_exact F 0
            | Some x \<Rightarrow> with_sign F s (fmul F x (of_exact F 100000000)))
         else if v \<noteq> [] \<and> last v = unit_wan then
           (case float_str F (butlast v) of
              None \<Rightarrow> of_exact F 0
            | Some x \<Rightarrow> with_sign F s (fmul F x (of_exact F 10000)))
         else (case float_str F v of
                 None \<Rightarrow> of_exact F 0
               | Some x \<Rightarrow> with_sign F s x))"

text \<open>
  The parse as the code performs it: the unit is looked for anywhere in the
  text, the hundred-million unit first, and removed wherever it stands.
\<close>

definition unit_parse :: "'f float_ops \<Rightarrow> pystr \<Rightarrow> 'f" where
  "unit_parse F s =
     (let v = magnitude_text s
      in if unit_yi \<in> set v then
           (case float_str F (remove_char unit_yi v) of
              None \<Rightarrow> of_exact F 0
            | Some x \<Rightarrow> with_sign F s (fmul F x (of_exact F 100000000)))
         else if unit_wan \<in> set v then
           (case float_str F (remove_char unit_wan v) of
              None \<Rightarrow> of_exact F 0
            | Some x \<Rightarrow> with_sign F s (fmul F x (of_exact F 10000)))
         else (case float_str F v of
                 None \<Rightarrow> of_exact F 0
               | Some x \<Rightarrow> with_sign F s x))"

subsection \<open>Decimal literals\<close>

text \<open>
  \<open>float\<close> on the plain decimal literals, in exact arithmetic: optional
  surrounding whitespace, an optional sign, digits with an optional fraction,
  and an optional exponent. It serves the examples; every string it rejects
  that is used below is also rejected by Python.
\<close>

definition is_digit :: "nat \<Rightarrow> bool" where
  "is_digit c = (48 \<le> c \<and> c \<le> 57)"

definition digits_value :: "pystr \<Rightarrow> nat" where
  "digits_value ds = foldl (\<lambda>acc d. 10 * acc + (d - 48)) 0 ds"

definition unsigned_decimal :: "pystr \<Rightarrow> rat option" where
  "unsigned_decimal s =
     (let ip = takeWhile is_digit s;
          r = dropWhile is_digit s;
          fp = (case r of [] \<Rightarrow> [] | x # t \<Rightarrow> if x = 46 then takeWhile is_digit t else []);
          r2 = (case r of [] \<Rightarrow> [] | x # t \<Rightarrow> if x = 46 then dropWhile is_digit t else r)
      in if ip = [] \<and> fp = [] then None
         else
           let m = of_nat (digits_value ip) + of_nat (digits_value fp) / 10 ^ length fp
           in (case r2 of
                 [] \<Rightarrow> Some m
               | x # t \<Rightarrow>
                   if x = 101 \<or> x = 69 then
                     (let neg = startswith_char t 45;
                          ds = (if startswith_char t 45 \<or> startswith_char t 43 then tl t else t)
                      in if ds = [] \<or> \<not> list_all is_digit ds then None
                         else if neg then Some (m / 10 ^ digits_value ds)
                         else Some (m * 10 ^ digits_value ds))
                   else None))"

definition float_literal :: "pystr \<Rightarrow> rat option" where
  "float_literal s =
     (let t = py_strip s
      in if startswith_char t 45 then map_option uminus (unsigned_decimal (tl t))
         else if startswith_char t 43 then unsigned_decimal (tl t)
         else unsigned_decimal t)"

section \<open>Example data\<close>

text \<open>The floating-point operations in exact arithmetic.\<close>

definition nan_mul :: "rat option \<Rightarrow> rat option \<Rightarrow> rat option" where
  "nan_mul a b = (case a of None \<Rightarrow> None
                  | Some x \<Rightarrow> (case b of None \<Rightarrow> None | Some y \<Rightarrow> Some (x * y)))"

definition nan_div :: "rat option \<Rightarrow> rat option \<Rightarrow> rat option" where
  "nan_div a b = (case a of None \<Rightarrow> None
                  | Some x \<Rightarrow> (case b of None \<Rightarrow> None
                      | Some y \<Rightarrow> if y = 0 then None else Some (x / y)))"

definition nan_eq :: "rat option \<Rightarrow> rat option \<Rightarrow> bool" where
  "nan_eq a b = (case a of None \<Rightarrow> False
                 | Some x \<Rightarrow> (case b of None \<Rightarrow> False | Some y \<Rightarrow> x = y))"

definition exact_ops :: "rat option float_ops" where
  "exact_ops =
     \<lparr>of_exact = Some, fsub = nan_sub, fmul = nan_mul, fdiv = nan_div,
      fneg = map_option uminus, flt = (\<lambda>a b. nan_gt b a), fle = nan_le, feq = nan_eq,
      is_nan = (\<lambda>x. x = None),
      float_str = (\<lambda>s. map_option Some (float_literal s)),
      float_int = (\<lambda>n. Some (Some (of_int n))),
      rolling_mean_f = rolling_mean, diff_f = diff, mean_f = mean_skipna\<rparr>"

definition flat_bar :: "rat \<Rightarrow> bar" where
  "flat_bar c = \<lparr>close = c, high = c, low = c, volume = 1, pct_chg = 0\<rparr>"

definition day_bar :: "rat \<Rightarrow> rat \<Rightarrow> bar" where
  "day_bar c pc = \<lparr>close = c, high = c, low = c, volume = 1, pct_chg = pc\<rparr>"

definition rising_series :: "bar list" where
  "rising_series = map (\<lambda>k. flat_bar (of_nat k)) [1..<32]"

definition turning_series :: "bar list" where
  "turning_series = map flat_bar (replicate 21 10 @ [11])"

definition history_provider :: "(string \<Rightarrow> pyexn + bar list) \<Rightarrow> snapshot list \<Rightarrow> provider" where
  "history_provider h rows =
     \<lparr>spot = Inr rows, hist_daily = (\<lambda>c d. h c), hist_minute = (\<lambda>c. h c)\<rparr>"

definition stock :: "string \<Rightarrow> rat \<Rightarrow> snapshot" where
  "stock c x =
     \<lparr>code = c, name = c, last_price = x, pct_change = x, volume_ratio = x, turnover = x,
      total_cap = x * 100000000, amount = x, industry = ''bank'', cap = x\<rparr>"

text \<open>
  Histories by symbol: A has none, B rises by 1 a day over 31 sessions, C falls
  the same way, U1 has one limit-up session, U2 has two, and X cannot be fetched.
\<close>

definition sample_history :: "string \<Rightarrow> pyexn + bar list" where
  "sample_history s =
     (if s = ''A'' then Inr []
      else if s = ''B'' then Inr rising_series
      else if s = ''C'' then Inr (rev rising_series)
      else if s = ''U1'' then Inr [day_bar 10 10, day_bar 11 1]
      else if s = ''U2'' then Inr [day_bar 10 10, day_bar 11 10]
      else Inl ProviderError)"


text \<open>Criteria that let every row through: wide ranges, nothing ticked.\<close>

definition open_criteria :: criteria where
  "open_criteria =
     \<lparr>turnover_min = 0, turnover_max = 100, price_change_min = - 20, price_change_max = 20,
      volume_ratio_min = 0, volume_ratio_max = 0, price_min = 0, price_max = 10000,
      market_cap_min = 0, market_cap_max = 10000,
      remove_green_cb = False, remove_limit_up_cb = False, volume_increase_cb = False,
      ma_alignment_cb = False, macd_golden_cb = False, kdj_golden_cb = False,
      hot_stocks_n = 0, top_n_spin = 0, limit_up_times = 0, months_spin = 0\<rparr>"

section \<open>Basic facts about indexing and the float operations\<close>

lemma ebind_Inr [simp]: "ebind (Inr x) f = f x"
  by (simp add: ebind_def)

lemma ebind_Inl [simp]: "ebind (Inl e) f = Inl e"
  by (simp add: ebind_def)

lemma and_then_Inr [simp]: "and_then (Inr a) (Inr b) = Inr (a \<and> b)"
  by (simp add: and_then_def)

lemma iloc_last: "xs \<noteq> [] \<Longrightarrow> iloc xs (- 1) = Inr (xs ! (length xs - 1))"
  by (cases xs) (simp_all add: iloc_def)

lemma length_rolling_mean [simp]: "length (rolling_mean w xs) = length xs"
  by (simp add: rolling_mean_def)

lemma length_diff [simp]: "length (diff xs) = length xs"
  by (simp add: diff_def)

lemma take_drop_nth:
  "k + w \<le> length xs \<Longrightarrow> take w (drop k xs) = map (\<lambda>j. xs ! j) [k..<k + w]"
  by (auto simp: list_eq_iff_nth_eq)

lemma rolling_mean_nth_None:
  "i < length xs \<Longrightarrow> i + 1 < w \<Longrightarrow> rolling_mean w xs ! i = None"
  by (simp add: rolling_mean_def)

lemma iloc_slice_prior:
  assumes "3 \<le> length s"
  shows "iloc_slice s (- 3) (- 1) = [s ! (length s - 3), s ! (length s - 2)]"
proof -
  have a: "clip_pos (length s) (- 3) = length s - 3" using assms by (simp add: clip_pos_def) 
  have b: "clip_pos (length s) (- 1) = length s - 1" using assms by (simp add: clip_pos_def)
  have c: "length s - 1 - (length s - 3) = 2" using assms by arith
  have "take 2 (drop (length s - 3) s) = map (\<lambda>j. s ! j) [length s - 3..<(length s - 3) + 2]"
    using assms by (intro take_drop_nth) arith
  moreover have "[length s - 3..<(length s - 3) + 2] = [length s - 3, length s - 2]"
    using assms by (simp add: upt_rec [of "length s - 3"] upt_rec [of "length s - 2"] Suc_diff_le) 
  ultimately show ?thesis by (simp add: iloc_slice_def a b c)
qed

lemma mean_skipna_2 [simp]: "mean_skipna [Some a, Some b] = Some ((a + b) / 2)"
  by (simp add: mean_skipna_def List.map_filter_def)

lemma mean_skipna_NN [simp]: "mean_skipna [None, None] = None"
  by (simp add: mean_skipna_def List.map_filter_def)

lemma mean_skipna_N1 [simp]: "mean_skipna [None, Some b] = Some b"
  by (simp add: mean_skipna_def List.map_filter_def)

lemma rolling_nonempty: "xs \<noteq> [] \<Longrightarrow> rolling_mean w xs \<noteq> []"
  by (metis length_0_conv length_rolling_mean)


lemma keeps_length_rolling: "keeps_length F \<Longrightarrow> length (rolling_mean_f F w xs) = length xs"
  by (simp add: keeps_length_def)

lemma keeps_length_diff: "keeps_length F \<Longrightarrow> length (diff_f F s) = length s"
  by (simp add: keeps_length_def)

lemma length_ma_slope: "keeps_length F \<Longrightarrow> length (ma_slope F w xs) = length xs"
  by (simp add: ma_slope_def keeps_length_rolling keeps_length_diff)

lemma nonempty_length: "length s = length xs \<Longrightarrow> xs \<noteq> [] \<Longrightarrow> s \<noteq> []"
  by auto

lemma last_positive_nth:
  "s \<noteq> [] \<Longrightarrow> last_positive F s = Inr (fgt F (s ! (length s - 1)) (of_exact F 0))"
  by (simp add: last_positive_def iloc_last)

lemma prior_not_rising_nth:
  "3 \<le> length s \<Longrightarrow>
   prior_not_rising F 3 s
   = Inr (fle F (mean_f F [s ! (length s - 3), s ! (length s - 2)]) (of_exact F 0))"
  by (simp add: prior_not_rising_def iloc_slice_prior)

lemma chain_gt4_nth:
  assumes "a \<noteq> []" "length b = length a" "length c = length a" "length d = length a"
  shows "chain_gt4 F a b c d =
    Inr (fgt F (a ! (length a - 1)) (b ! (length a - 1))
       \<and> fgt F (b ! (length a - 1)) (c ! (length a - 1))
       \<and> fgt F (c ! (length a - 1)) (d ! (length a - 1)))"
proof -
  have "b \<noteq> []" "c \<noteq> []" "d \<noteq> []" using assms by auto
  then show ?thesis using assms by (simp add: chain_gt4_def iloc_last)
qed

lemma last_positive_slope:
  assumes "keeps_length F" and "xs \<noteq> []"
  shows "last_positive F (diff_f F (rolling_mean_f F w xs))
         = Inr (fgt F (ma_slope F w xs ! (length xs - 1)) (of_exact F 0))"
proof -
  have l: "length (ma_slope F w xs) = length xs" using assms(1) by (rule length_ma_slope)
  then have "ma_slope F w xs \<noteq> []" using assms(2) by (rule nonempty_length)
  then have "last_positive F (ma_slope F w xs)
      = Inr (fgt F (ma_slope F w xs ! (length (ma_slope F w xs) - 1)) (of_exact F 0))"
    by (rule last_positive_nth)
  then show ?thesis by (simp add: l) (simp add: ma_slope_def)
qed

lemma prior_not_rising_slope:
  assumes "keeps_length F" and "3 \<le> length xs"
  shows "prior_not_rising F 3 (diff_f F (rolling_mean_f F w xs))
         = Inr (fle F (mean_f F [ma_slope F w xs ! (length xs - 3),
                                 ma_slope F w xs ! (length xs - 2)]) (of_exact F 0))"
proof -
  have l: "length (ma_slope F w xs) = length xs" using assms(1) by (rule length_ma_slope)
  then have "3 \<le> length (ma_slope F w xs)" using assms(2) by simp
  then have "prior_not_rising F 3 (ma_slope F w xs)
      = Inr (fle F (mean_f F [ma_slope F w xs ! (length (ma_slope F w xs) - 3),
                              ma_slope F w xs ! (length (ma_slope F w xs) - 2)]) (of_exact F 0))"
    by (rule prior_not_rising_nth)
  then show ?thesis by (simp add: l) (simp add: ma_slope_def)
qed

lemma turn_component:
  assumes "keeps_length F" and "3 \<le> length xs"
  shows "and_then (last_positive F (diff_f F (rolling_mean_f F w xs)))
           (and_then (prior_not_rising F 3 (diff_f F (rolling_mean_f F w xs))) (Inr rest))
         = Inr (turns_up F w xs \<and> rest)"
proof -
  have ne: "xs \<noteq> []" using assms(2) by auto
  have "length xs - 1 - 2 = length xs - 3" "length xs - 1 - 1 = length xs - 2" by arith+
  then show ?thesis
    by (simp add: last_positive_slope [OF assms(1) ne] prior_not_rising_slope [OF assms]
        turns_up_def Let_def)
qed

lemma is_turning_up_spec:
  assumes "keeps_length F" and "3 \<le> length xs"
  shows "is_turning_up F xs = Inr (spec_turning_up F xs)"
proof -
  have t20: "and_then (last_positive F (diff_f F (rolling_mean_f F 20 xs)))
               (and_then (prior_not_rising F 3 (diff_f F (rolling_mean_f F 20 xs))) (Inr True))
             = Inr (turns_up F 20 xs \<and> True)"
    using assms by (rule turn_component)
  have p: "\<exists>b. prior_not_rising F 3 (diff_f F (rolling_mean_f F 20 xs)) = Inr b"
    by (simp add: prior_not_rising_def)
  then obtain b where b: "prior_not_rising F 3 (diff_f F (rolling_mean_f F 20 xs)) = Inr b"
    by blast
  have t20': "and_then (last_positive F (diff_f F (rolling_mean_f F 20 xs)))
                (prior_not_rising F 3 (diff_f F (rolling_mean_f F 20 xs)))
              = Inr (turns_up F 20 xs)"
    using t20 by (simp add: b)
  have t10: "and_then (last_positive F (diff_f F (rolling_mean_f F 10 xs)))
               (and_then (prior_not_rising F 3 (diff_f F (rolling_mean_f F 10 xs)))
                  (Inr (turns_up F 20 xs)))
             = Inr (turns_up F 10 xs \<and> turns_up F 20 xs)"
    using assms by (rule turn_component)
  have t5: "and_then (last_positive F (diff_f F (rolling_mean_f F 5 xs)))
               (and_then (prior_not_rising F 3 (diff_f F (rolling_mean_f F 5 xs)))
                  (Inr (turns_up F 10 xs \<and> turns_up F 20 xs)))
             = Inr (turns_up F 5 xs \<and> turns_up F 10 xs \<and> turns_up F 20 xs)"
    using assms by (rule turn_component)
  show ?thesis
    by (simp add: is_turning_up_def Let_def t20' t10 t5 spec_turning_up_def)
qed

lemma is_bullish_spec:
  assumes "keeps_length F" and "xs \<noteq> []"
  shows "is_bullish F xs = Inr (spec_bullish F xs)"
proof -
  have l: "length (rolling_mean_f F w xs) = length xs" for w
    using assms(1) by (rule keeps_length_rolling)
  have ne: "rolling_mean_f F 5 xs \<noteq> []" using l assms(2) by (rule nonempty_length)
  have c: "chain_gt4 F (rolling_mean_f F 5 xs) (rolling_mean_f F 10 xs)
             (rolling_mean_f F 20 xs) (rolling_mean_f F 30 xs)
           = Inr (fgt F (rolling_mean_f F 5 xs ! (length xs - 1))
                        (rolling_mean_f F 10 xs ! (length xs - 1))
                \<and> fgt F (rolling_mean_f F 10 xs ! (length xs - 1))
                        (rolling_mean_f F 20 xs ! (length xs - 1))
                \<and> fgt F (rolling_mean_f F 20 xs ! (length xs - 1))
                        (rolling_mean_f F 30 xs ! (length xs - 1)))"
    using chain_gt4_nth [OF ne, of "rolling_mean_f F 10 xs" "rolling_mean_f F 20 xs"
        "rolling_mean_f F 30 xs" F]
    by (simp only: l)
  show ?thesis
    by (simp add: is_bullish_def Let_def c last_positive_slope [OF assms] spec_bullish_def)
qed

lemma slope_nan:
  assumes "keeps_length F" and "nan_laws F" and "i < length xs" and "i < w"
  shows "is_nan F (ma_slope F w xs ! i)"
proof -
  have l: "length (rolling_mean_f F w xs) = length xs"
    using assms(1) by (rule keeps_length_rolling)
  have d: "is_nan F (diff_f F s ! j)" if "j < length s" "j = 0 \<or> is_nan F (s ! (j - 1))" for s j
    using assms(2) that unfolding nan_laws_def by blast
  have r: "is_nan F (rolling_mean_f F w xs ! j)" if "j < length xs" "j + 1 < w" for j
    using assms(2) that unfolding nan_laws_def by blast
  have "i = 0 \<or> is_nan F (rolling_mean_f F w xs ! (i - 1))"
  proof (cases "i = 0")
    case True then show ?thesis by simp
  next
    case False
    then have "i - 1 < length xs" "i - 1 + 1 < w" using assms(3,4) by auto
    then show ?thesis using r by blast
  qed
  then show ?thesis using d [of i "rolling_mean_f F w xs"] assms(3) l by (simp add: ma_slope_def)
qed

lemma nan_not_positive:
  "nan_laws F \<Longrightarrow> is_nan F x \<Longrightarrow> \<not> fgt F x y"
  unfolding nan_laws_def fgt_def by blast

lemma nan_not_le:
  "nan_laws F \<Longrightarrow> is_nan F x \<Longrightarrow> \<not> fle F x y"
  unfolding nan_laws_def by blast

lemma nan_mean:
  "nan_laws F \<Longrightarrow> list_all (is_nan F) s \<Longrightarrow> is_nan F (mean_f F s)"
  unfolding nan_laws_def by blast

lemma last_slope_not_positive:
  assumes "keeps_length F" and "nan_laws F" and "xs \<noteq> []" and "length xs \<le> w"
  shows "\<not> fgt F (ma_slope F w xs ! (length xs - 1)) (of_exact F 0)"
proof -
  have i: "length xs - 1 < length xs" using assms(3) by (cases xs) auto
  then have j: "length xs - 1 < w" using assms(4) by arith
  have "is_nan F (ma_slope F w xs ! (length xs - 1))"
    by (rule slope_nan [OF assms(1,2) i j])
  then show ?thesis using assms(2) by (rule nan_not_positive [rotated])
qed

lemma spec_bullish_short:
  assumes "keeps_length F" and "nan_laws F" and "xs \<noteq> []" and "length xs < 31"
  shows "\<not> spec_bullish F xs"
proof -
  have "length xs \<le> 30" using assms(4) by simp
  then have "\<not> fgt F (ma_slope F 30 xs ! (length xs - 1)) (of_exact F 0)"
    by (rule last_slope_not_positive [OF assms(1,2,3)])
  then show ?thesis by (simp add: spec_bullish_def Let_def)
qed

lemma turns_up_20_short:
  assumes "keeps_length F" and "nan_laws F" and "3 \<le> length xs" and "length xs < 22"
  shows "\<not> turns_up F 20 xs"
proof (cases "length xs = 21")
  case True
  have a: "is_nan F (ma_slope F 20 xs ! 18)" "is_nan F (ma_slope F 20 xs ! 19)"
    using True by (auto intro: slope_nan [OF assms(1,2)])
  then have "list_all (is_nan F) [ma_slope F 20 xs ! 18, ma_slope F 20 xs ! 19]" by simp
  then have "is_nan F (mean_f F [ma_slope F 20 xs ! 18, ma_slope F 20 xs ! 19])"
    by (rule nan_mean [OF assms(2)])
  then have "\<not> fle F (mean_f F [ma_slope F 20 xs ! 18, ma_slope F 20 xs ! 19]) (of_exact F 0)"
    by (rule nan_not_le [OF assms(2)])
  then show ?thesis using True by (simp add: turns_up_def Let_def)
next
  case False
  then have "length xs \<le> 20" using assms(4) by arith
  moreover have "xs \<noteq> []" using assms(3) by auto
  ultimately have "\<not> fgt F (ma_slope F 20 xs ! (length xs - 1)) (of_exact F 0)"
    using last_slope_not_positive [OF assms(1,2)] by blast
  then show ?thesis by (simp add: turns_up_def Let_def)
qed

lemma is_turning_up_tiny:
  assumes "keeps_length F" and "nan_laws F" and "xs \<noteq> []" and "length xs < 3"
  shows "is_turning_up F xs = Inr False"
proof -
  have s: "last_positive F (diff_f F (rolling_mean_f F w xs))
           = Inr (fgt F (ma_slope F w xs ! (length xs - 1)) (of_exact F 0))" for w
    by (rule last_positive_slope [OF assms(1,3)])
  obtain c1 where c1: "prior_not_rising F 3 (diff_f F (rolling_mean_f F 5 xs)) = Inr c1"
    by (simp add: prior_not_rising_def)
  obtain c2 where c2: "prior_not_rising F 3 (diff_f F (rolling_mean_f F 10 xs)) = Inr c2"
    by (simp add: prior_not_rising_def)
  have "length xs \<le> 20" using assms(4) by simp
  then have l: "\<not> fgt F (ma_slope F 20 xs ! (length xs - 1)) (of_exact F 0)"
    by (rule last_slope_not_positive [OF assms(1,2,3)])
  show ?thesis
    using l by (simp add: is_turning_up_def Let_def s c1 c2 and_then_def)
qed

lemma ma_trend_body_eq:
  assumes "is_turning_up F (map close h) = Inr t" and "is_bullish F (map close h) = Inr b"
    and "h \<noteq> []"
  shows "ma_trend_body F h = Inr (t \<or> b, Some (last h))"
  using assms by (simp add: ma_trend_body_def iloc_last last_conv_nth)

lemma mean_skipna_all_nan: "list_all (\<lambda>x. x = None) s \<Longrightarrow> mean_skipna s = None"
proof -
  assume "list_all (\<lambda>x. x = None) s"
  then have "List.map_filter (\<lambda>v. v) s = []"
    by (induction s) simp_all
  then show ?thesis by (simp add: mean_skipna_def)
qed

lemma keeps_length_exact: "keeps_length exact_ops"
  by (simp add: keeps_length_def exact_ops_def)

lemma nan_laws_exact: "nan_laws exact_ops"
proof -
  have a: "rolling_mean w xs ! i = None" if "i < length xs" "i + 1 < w" for w xs i
    using that by (rule rolling_mean_nth_None)
  have b: "diff s ! i = None" if "i < length s" "i = 0 \<or> s ! (i - 1) = None" for s i
    using that by (auto simp: diff_def nan_sub_def split: option.splits)
  have c: "mean_skipna s = None" if "list_all (\<lambda>x. x = None) s" for s
    using that by (rule mean_skipna_all_nan)
  have d: "\<not> nan_gt y None \<and> \<not> nan_gt None y \<and> \<not> nan_le None y \<and> \<not> nan_le y None" for y
    by (simp add: nan_gt_def nan_le_def split: option.splits)
  show ?thesis
    unfolding nan_laws_def using a b c d by (simp add: exact_ops_def)
qed

section \<open>Properties of the trading-signal scorer\<close>

lemma score_row_rating: "rating_score (score_row pos row) = spec_rating pos row"
  by (simp add: score_row_def spec_rating_def score_position_def score_turnover_def
      score_volume_ratio_def score_change_def add_rating_def add_risk_def)

lemma score_row_risk: "risk_score (score_row pos row) = spec_risk pos"
  by (simp add: score_row_def spec_risk_def score_position_def score_turnover_def
      score_volume_ratio_def score_change_def add_rating_def add_risk_def)

lemma final_advice_spec: "final_advice s = spec_label (rating_score s) (risk_score s)"
  by (simp add: final_advice_def spec_label_def)

text \<open>
  C3. Every row scored by \<open>analyze_trading_signals\<close> gets as rating the sum of
  +2 for a change above 5 (else +1 above 2), +1 for a volume ratio above 2, +1
  for a turnover above 5 and +2 for a low price position; as risk +2 for a high
  price position; and the label buy, watch, risk warning or hold, tested in
  that order, from these two scores. The results come one per row, in order.
\<close>

theorem analyze_trading_signals_scores:
  "map (\<lambda>r. (sig_rating r, sig_risk r, sig_advice r)) (analyze_trading_signals F p df)
   = map (\<lambda>row.
        let pos = get_price_position F p (code row) (last_price row)
        in (spec_rating pos row, spec_risk pos,
            spec_label (spec_rating pos row) (spec_risk pos))) df"
  by (simp add: analyze_trading_signals_def analyze_row_def Let_def comp_def
      score_row_rating score_row_risk final_advice_spec)

text \<open>
  C10. The risk score of every scored row is 0 or 2, so the test for a risk of
  3 or more never succeeds and the risk-warning label is never produced: each
  label is buy, watch or hold.
\<close>

theorem analyze_row_risk_never_warns:
  "(sig_risk (analyze_row F p row) = 0 \<or> sig_risk (analyze_row F p row) = 2)
   \<and> \<not> sig_risk (analyze_row F p row) \<ge> 3
   \<and> sig_advice (analyze_row F p row) \<noteq> RiskWarning
   \<and> list_all (\<lambda>r. sig_advice r = Buy \<or> sig_advice r = Watch \<or> sig_advice r = Hold)
        (analyze_trading_signals F p df)"
proof -
  have risk: "sig_risk (analyze_row F q r) = spec_risk (sig_position (analyze_row F q r))" for q r
    by (simp add: analyze_row_def Let_def score_row_risk)
  have lab: "sig_advice (analyze_row F q r) \<noteq> RiskWarning" for q r
    by (simp add: analyze_row_def Let_def final_advice_spec score_row_risk
        spec_label_def spec_risk_def)
  have each: "sig_advice (analyze_row F q r) = Buy \<or> sig_advice (analyze_row F q r) = Watch
      \<or> sig_advice (analyze_row F q r) = Hold" for q r
    using lab [of q r] by (cases "sig_advice (analyze_row F q r)") simp_all
  show ?thesis
    using each by (simp add: risk spec_risk_def lab analyze_trading_signals_def list_all_iff)
qed

section \<open>Properties of the trend classifier\<close>

text \<open>
  C1. For a symbol that is not cached and whose history has at least 31 bars,
  \<open>check_ma_trend\<close> returns as its flag turning-up or bullish alignment, and the
  latest bar. Turning-up: for each of MA5, MA10 and MA20 the latest slope is
  above 0 and the mean of the two slopes before it is at most 0. Bullish
  alignment: MA5 > MA10 > MA20 > MA30 at the last bar and the latest slopes of
  all four averages are above 0. The averages, slopes, means and comparisons
  are those of the floating-point operations, whatever they compute; only that
  rolling means and differences keep the length of the series is used.
\<close>

theorem check_ma_trend_classifies:
  assumes "keeps_length F" and "cache c = None" and "hist_daily p c 60 = Inr hist"
    and "31 \<le> length hist"
  shows "fst (check_ma_trend F p cache c)
         = (spec_turning_up F (map close hist) \<or> spec_bullish F (map close hist),
            Some (last hist))"
proof -
  have ne: "hist \<noteq> []" using assms(4) by auto
  have t: "is_turning_up F (map close hist) = Inr (spec_turning_up F (map close hist))"
    using assms(4) by (intro is_turning_up_spec [OF assms(1)]) simp
  have b: "is_bullish F (map close hist) = Inr (spec_bullish F (map close hist))"
    using ne by (intro is_bullish_spec [OF assms(1)]) simp
  show ?thesis
    by (simp add: check_ma_trend_def assms(2,3) ne ma_trend_body_eq [OF t b ne])
qed

theorem check_ma_trend_classifies_witness:
  "fst (check_ma_trend exact_ops (history_provider (\<lambda>c. Inr rising_series) []) Map.empty
     ''600000'')
   = (True, Some (flat_bar 31))"
proof -
  have h1: "(Map.empty :: trend_cache) ''600000'' = None" by simp
  have h2: "hist_daily (history_provider (\<lambda>c. Inr rising_series) []) ''600000'' 60
            = Inr rising_series"
    by (simp add: history_provider_def)
  have h3: "31 \<le> length rising_series" by (simp add: rising_series_def)
  have s: "spec_bullish exact_ops (map close rising_series)" by code_simp
  have l: "last rising_series = flat_bar 31" by code_simp
  show ?thesis
    using check_ma_trend_classifies [OF keeps_length_exact h1 h2 h3] s l by simp
qed

text \<open>
  C2, as stated, fails: a history of 22 bars (21 closes of 10, then 11) has
  fewer than 31 bars and is classified positive, with the latest bar returned.
  The example is evaluated in exact arithmetic; binary64 gives the same signs on
  it, every earlier slope being exactly 0 and every latest slope above 0.
\<close>

theorem check_ma_trend_short_counterexample:
  "length turning_series < 31
   \<and> fst (check_ma_trend exact_ops (history_provider (\<lambda>c. Inr turning_series) []) Map.empty
       ''600000'')
     = (True, Some (flat_bar 11))"
  by code_simp

text \<open>
  C2, amended. For a symbol that is not cached and whose history has fewer than
  31 bars, \<open>check_ma_trend\<close> does not raise and bullish alignment never holds. It
  returns \<open>(False, None)\<close> for an empty history, \<open>(False, latest bar)\<close> for 1 to 21
  bars, and \<open>(turning-up, latest bar)\<close> for 22 to 30 bars, turning-up being
  computed by the floating-point operations (with exactly 22 bars the first of
  the two earlier MA20 slopes is NaN and the mean is taken over the other).
  This holds for all floating-point operations that keep lengths and obey the
  NaN laws.
\<close>

theorem check_ma_trend_short:
  assumes "keeps_length F" and "nan_laws F"
    and "cache c = None" and "hist_daily p c 60 = Inr hist" and "length hist < 31"
  shows "fst (check_ma_trend F p cache c)
         = (if hist = [] then (False, None)
            else if length hist < 22 then (False, Some (last hist))
            else (spec_turning_up F (map close hist), Some (last hist)))"
proof (cases "hist = []")
  case True
  then show ?thesis by (simp add: check_ma_trend_def assms(3,4))
next
  case ne: False
  then have ne': "map close hist \<noteq> []" by simp
  have "\<not> spec_bullish F (map close hist)"
    using assms(5) by (intro spec_bullish_short [OF assms(1,2) ne']) simp
  then have b: "is_bullish F (map close hist) = Inr False"
    using is_bullish_spec [OF assms(1) ne'] by simp
  consider "length hist < 3" | "3 \<le> length hist" "length hist < 22" | "22 \<le> length hist"
    by arith
  then show ?thesis
  proof cases
    case 1
    have t: "is_turning_up F (map close hist) = Inr False"
      using 1 by (intro is_turning_up_tiny [OF assms(1,2) ne']) simp
    show ?thesis
      using ne 1 by (simp add: check_ma_trend_def assms(3,4) ma_trend_body_eq [OF t b ne])
  next
    case 2
    have "\<not> turns_up F 20 (map close hist)"
      using 2 by (intro turns_up_20_short [OF assms(1,2)]) simp_all
    then have "\<not> spec_turning_up F (map close hist)" by (simp add: spec_turning_up_def)
    moreover have "is_turning_up F (map close hist) = Inr (spec_turning_up F (map close hist))"
      using 2 by (intro is_turning_up_spec [OF assms(1)]) simp
    ultimately have t: "is_turning_up F (map close hist) = Inr False" by simp
    show ?thesis
      using ne 2 by (simp add: check_ma_trend_def assms(3,4) ma_trend_body_eq [OF t b ne])
  next
    case 3
    have t: "is_turning_up F (map close hist) = Inr (spec_turning_up F (map close hist))"
      using 3 by (intro is_turning_up_spec [OF assms(1)]) simp
    show ?thesis
      using ne 3 by (simp add: check_ma_trend_def assms(3,4) ma_trend_body_eq [OF t b ne])
  qed
qed

theorem check_ma_trend_short_witness:
  "fst (check_ma_trend exact_ops (history_provider (\<lambda>c. Inr [flat_bar 3]) []) Map.empty
     ''600000'')
   = (False, Some (flat_bar 3))
   \<and> fst (check_ma_trend exact_ops (history_provider (\<lambda>c. Inr turning_series) []) Map.empty
       ''600000'')
     = (spec_turning_up exact_ops (map close turning_series), Some (flat_bar 11))"
proof -
  have h1: "(Map.empty :: trend_cache) ''600000'' = None" by simp
  have h2: "hist_daily (history_provider (\<lambda>c. Inr [flat_bar 3]) []) ''600000'' 60
            = Inr [flat_bar 3]"
    by (simp add: history_provider_def)
  have h3: "length [flat_bar 3] < 31" by simp
  have g2: "hist_daily (history_provider (\<lambda>c. Inr turning_series) []) ''600000'' 60
            = Inr turning_series"
    by (simp add: history_provider_def)
  have g3: "length turning_series < 31" by (simp add: turning_series_def)
  have n: "length turning_series = 22" by (simp add: turning_series_def)
  have l: "last turning_series = flat_bar 11" by (simp add: turning_series_def)
  have e: "turning_series \<noteq> []" using n by auto
  show ?thesis
    using check_ma_trend_short [OF keeps_length_exact nan_laws_exact h1 h2 h3]
      check_ma_trend_short [OF keeps_length_exact nan_laws_exact h1 g2 g3] n l e
    by simp
qed

section \<open>Facts about the filter pipeline\<close>

lemma iloc_second_last: "2 \<le> length xs \<Longrightarrow> iloc xs (- 2) = Inr (xs ! (length xs - 2))"
proof -
  assume a: "2 \<le> length xs"
  then have "nat (int (length xs) + - 2) = length xs - 2" by arith
  with a show ?thesis by (simp add: iloc_def)
qed

lemma length_ewm_recursive [simp]: "length (ewm_recursive a prev xs) = length xs"
  by (induction xs arbitrary: prev) (simp_all add: Let_def)

lemma length_ewm_span [simp]: "length (ewm_span n xs) = length xs"
  by (simp add: ewm_span_def split: list.splits)

lemma length_ewm_adjusted [simp]: "length (ewm_adjusted a w wt xs) = length xs"
  by (induction a w wt xs rule: ewm_adjusted.induct) (simp_all add: Let_def)

lemma length_ewm_com [simp]: "length (ewm_com k xs) = length xs"
  by (simp add: ewm_com_def split: list.splits)

lemma length_macd_line [simp]: "length (macd_line h) = length h"
  by (simp add: macd_line_def Let_def)

lemma length_rsv_series [simp]: "length (rsv_series h) = length h"
  by (simp add: rsv_series_def Let_def)

lemma two_nonempty: "2 \<le> length xs \<Longrightarrow> xs \<noteq> []"
  by auto

lemma ma_alignment_ok_total:
  assumes "h \<noteq> []"
  shows "\<exists>b. ma_alignment_ok h = Inr b"
proof -
  have "rolling_mean w (map close h) \<noteq> []" for w
    using assms by (intro rolling_nonempty) simp
  then show ?thesis by (simp add: ma_alignment_ok_def iloc_last)
qed

lemma macd_golden_ok_total:
  assumes "h \<noteq> []"
  shows "\<exists>b. macd_golden_ok h = Inr b"
proof (cases "length h = 1")
  case True
  then obtain x where h: "h = [x]" by (cases h) auto
  have "macd_golden_ok h = Inr False"
    by (simp add: h macd_golden_ok_def macd_line_def ewm_span_def iloc_def Let_def)
  then show ?thesis by blast
next
  case False
  moreover have "0 < length h" using assms by simp
  ultimately have two: "2 \<le> length h" by arith
  have m2: "2 \<le> length (macd_line h)" "2 \<le> length (ewm_span 9 (macd_line h))"
    using two by simp_all
  have m: "macd_line h \<noteq> []" "ewm_span 9 (macd_line h) \<noteq> []"
    by (rule two_nonempty [OF m2(1)], rule two_nonempty [OF m2(2)])
  show ?thesis
    by (auto simp add: macd_golden_ok_def Let_def iloc_last [OF m(1)] iloc_last [OF m(2)]
        iloc_second_last [OF m2(1)] iloc_second_last [OF m2(2)])
qed

lemma kdj_golden_ok_total:
  assumes "h \<noteq> []"
  shows "\<exists>b. kdj_golden_ok h = Inr b"
proof (cases "length h = 1")
  case True
  then obtain x where h: "h = [x]" by (cases h) auto
  have "kdj_golden_ok h = Inr False"
    by (simp add: h kdj_golden_ok_def rsv_series_def rolling_min_def rolling_max_def
        rsv_value_def ewm_com_def iloc_def nan_gt_def Let_def)
  then show ?thesis by blast
next
  case False
  moreover have "0 < length h" using assms by simp
  ultimately have two: "2 \<le> length h" by arith
  have m2: "2 \<le> length (ewm_com 2 (rsv_series h))"
    "2 \<le> length (ewm_com 2 (ewm_com 2 (rsv_series h)))"
    using two by simp_all
  have m: "ewm_com 2 (rsv_series h) \<noteq> []" "ewm_com 2 (ewm_com 2 (rsv_series h)) \<noteq> []"
    by (rule two_nonempty [OF m2(1)], rule two_nonempty [OF m2(2)])
  show ?thesis
    by (auto simp add: kdj_golden_ok_def Let_def iloc_last [OF m(1)] iloc_last [OF m(2)]
        iloc_second_last [OF m2(1)] iloc_second_last [OF m2(2)])
qed

lemma technical_pass_dropped:
  assumes "hist_daily p (code row) 60 = Inr h"
  shows "technical_pass p c row = Inr (\<not> tech_dropped c h)"
proof (cases "h = []")
  case True
  then show ?thesis by (simp add: technical_pass_def assms tech_dropped_def)
next
  case False
  from ma_alignment_ok_total [OF False] obtain b1 where b1: "ma_alignment_ok h = Inr b1" by blast
  from macd_golden_ok_total [OF False] obtain b2 where b2: "macd_golden_ok h = Inr b2" by blast
  from kdj_golden_ok_total [OF False] obtain b3 where b3: "kdj_golden_ok h = Inr b3" by blast
  show ?thesis
    using False by (simp add: technical_pass_def assms tech_dropped_def b1 b2 b3)
qed

lemma technical_stocks_codes:
  assumes "\<forall>r \<in> set rows. \<exists>h. hist_daily p (code r) 60 = Inr h"
  shows "technical_stocks p c rows
         = Inr (map code (filter (\<lambda>r. \<not> tech_dropped c (history60 p (code r))) rows))"
  using assms
proof (induction rows)
  case Nil
  then show ?case by simp
next
  case (Cons r rows)
  then obtain h where h: "hist_daily p (code r) 60 = Inr h" by auto
  have "history60 p (code r) = h" by (simp add: history60_def h)
  with Cons show ?case by (simp add: technical_pass_dropped [OF h])
qed

lemma filter_isin_codes:
  "filter (\<lambda>r. code r \<in> set (map code (filter (\<lambda>r. Q (code r)) df))) df
   = filter (\<lambda>r. Q (code r)) df"
  by (rule filter_cong) auto

text \<open>
  C5. In the technical block, when every history fetch returns, a candidate is
  dropped if and only if its history is not empty and some enabled sub-check
  (MA5 > MA10 > MA20, MACD golden cross, KDJ golden cross) fails; the
  candidates whose history is empty all survive the block.
\<close>

theorem technical_filter_drops:
  assumes "\<forall>r \<in> set df. \<exists>h. hist_daily p (code r) 60 = Inr h"
  shows "technical_filter p c df
           = Inr (filter (\<lambda>r. \<not> tech_dropped c (history60 p (code r))) df)
         \<and> technical_filter p c (filter (\<lambda>r. history60 p (code r) = []) df)
           = Inr (filter (\<lambda>r. history60 p (code r) = []) df)"
proof -
  have gen: "technical_filter p c rows
      = Inr (filter (\<lambda>r. \<not> tech_dropped c (history60 p (code r))) rows)"
    if ok: "\<forall>r \<in> set rows. \<exists>h. hist_daily p (code r) 60 = Inr h" for rows
  proof (cases "ma_alignment_cb c \<or> macd_golden_cb c \<or> kdj_golden_cb c")
    case True
    have "technical_filter p c rows
        = Inr (filter (\<lambda>r. code r \<in> set (map code
                 (filter (\<lambda>r. \<not> tech_dropped c (history60 p (code r))) rows))) rows)"
      using True by (simp only: technical_filter_def technical_stocks_codes [OF ok] ebind_Inr if_True)
    then show ?thesis
      by (simp only: filter_isin_codes [where Q = "\<lambda>s. \<not> tech_dropped c (history60 p s)"])
  next
    case False
    then show ?thesis by (simp add: technical_filter_def tech_dropped_def)
  qed
  have a: "technical_filter p c df
      = Inr (filter (\<lambda>r. \<not> tech_dropped c (history60 p (code r))) df)"
    using assms by (rule gen)
  have "technical_filter p c (filter (\<lambda>r. history60 p (code r) = []) df)
      = Inr (filter (\<lambda>r. \<not> tech_dropped c (history60 p (code r)))
              (filter (\<lambda>r. history60 p (code r) = []) df))"
    using assms by (intro gen) auto
  moreover have "filter (\<lambda>r. \<not> tech_dropped c (history60 p (code r)))
              (filter (\<lambda>r. history60 p (code r) = []) df)
       = filter (\<lambda>r. history60 p (code r) = []) df"
    by (simp add: tech_dropped_def cong: conj_cong)
  ultimately show ?thesis using a by simp
qed

theorem technical_filter_drops_witness:
  "technical_filter (history_provider sample_history [])
     (open_criteria\<lparr>ma_alignment_cb := True\<rparr>) [stock ''A'' 1, stock ''B'' 2, stock ''C'' 3]
   = Inr [stock ''A'' 1, stock ''B'' 2]"
proof -
  have h: "\<forall>r \<in> set [stock ''A'' 1, stock ''B'' 2, stock ''C'' 3].
      \<exists>h. hist_daily (history_provider sample_history []) (code r) 60 = Inr h"
    by (simp add: history_provider_def sample_history_def stock_def)
  have e: "filter (\<lambda>r. \<not> tech_dropped (open_criteria\<lparr>ma_alignment_cb := True\<rparr>)
              (history60 (history_provider sample_history []) (code r)))
            [stock ''A'' 1, stock ''B'' 2, stock ''C'' 3] = [stock ''A'' 1, stock ''B'' 2]"
    by code_simp
  show ?thesis
    using technical_filter_drops [OF h, of "open_criteria\<lparr>ma_alignment_cb := True\<rparr>"] e
    by simp
qed

lemma limit_up_stocks_codes:
  assumes "\<forall>r \<in> set rows. \<exists>h. hist_daily p (code r) (30 * months_spin c) = Inr h"
    and "0 < limit_up_times c"
  shows "limit_up_stocks p (months_spin c) (limit_up_times c) rows
         = Inr (map code (filter (\<lambda>r. limit_up_count (window_history p c (code r))
                                      = limit_up_times c) rows))"
  using assms(1)
proof (induction rows)
  case Nil
  then show ?case by simp
next
  case (Cons r rows)
  then obtain h where h: "hist_daily p (code r) (30 * months_spin c) = Inr h" by auto
  have w: "window_history p c (code r) = h" by (simp add: window_history_def h)
  have "(h \<noteq> [] \<and> limit_up_count h = limit_up_times c) = (limit_up_count h = limit_up_times c)"
    using assms(2) by (auto simp: limit_up_count_def)
  with Cons w h show ?case by simp
qed

lemma ebind_Inr_iff: "ebind m f = Inr y \<longleftrightarrow> (\<exists>x. m = Inr x \<and> f x = Inr y)"
  by (cases m) simp_all

lemma limit_up_stocks_fetched:
  "limit_up_stocks p m k rows = Inr codes \<Longrightarrow>
   \<forall>r \<in> set rows. \<exists>h. hist_daily p (code r) (30 * m) = Inr h"
proof (induction rows arbitrary: codes)
  case Nil
  then show ?case by simp
next
  case (Cons r rows)
  from Cons.prems obtain h rest where h: "hist_daily p (code r) (30 * m) = Inr h"
    and rest: "limit_up_stocks p m k rows = Inr rest"
    by (auto simp: ebind_Inr_iff)
  from Cons.IH [OF rest] h show ?case by auto
qed

lemma subset_volume_increase_filter:
  "volume_increase_filter p c df = Inr out \<Longrightarrow> set out \<subseteq> set df"
  by (auto simp: volume_increase_filter_def ebind_Inr_iff split: if_splits)

lemma subset_technical_filter:
  "technical_filter p c df = Inr out \<Longrightarrow> set out \<subseteq> set df"
  by (auto simp: technical_filter_def ebind_Inr_iff split: if_splits)


lemma subset_checkbox_filters: "set (checkbox_filters c df) \<subseteq> set df"
  by (auto simp: checkbox_filters_def Let_def)

lemma subset_nlargest: "set (nlargest n key df) \<subseteq> set df"
proof -
  have "set (take n (sort_key (\<lambda>r. - key r) df)) \<subseteq> set (sort_key (\<lambda>r. - key r) df)"
    by (rule set_take_subset)
  then show ?thesis by (simp add: nlargest_def)
qed

lemma subset_hot_stocks_filter: "set (hot_stocks_filter c df) \<subseteq> set df"
  using subset_nlargest by (simp add: hot_stocks_filter_def)

lemma subset_industry_filter: "set (industry_filter c df) \<subseteq> set df"
  by (auto simp: industry_filter_def)

lemma filter_stages_last:
  assumes "filter_stages p c = Inr out"
  shows "\<exists>df rows. spot p = Inr df \<and> set rows \<subseteq> set (range_filters c df)
           \<and> limit_up_filter p c rows = Inr out"
proof -
  from assms obtain df df1 df2 where s: "spot p = Inr df"
    and v: "volume_increase_filter p c (checkbox_filters c (range_filters c df)) = Inr df1"
    and t: "technical_filter p c df1 = Inr df2"
    and l: "limit_up_filter p c (industry_filter c (hot_stocks_filter c df2)) = Inr out"
    by (auto simp: filter_stages_def ebind_Inr_iff)
  have "set (industry_filter c (hot_stocks_filter c df2)) \<subseteq> set df2"
    using subset_industry_filter subset_hot_stocks_filter by blast
  also have "\<dots> \<subseteq> set df1" using t by (rule subset_technical_filter)
  also have "\<dots> \<subseteq> set (checkbox_filters c (range_filters c df))"
    using v by (rule subset_volume_increase_filter)
  also have "\<dots> \<subseteq> set (range_filters c df)" by (rule subset_checkbox_filters)
  finally show ?thesis using s l by blast
qed

lemma filter_stocks_Some: "filter_stocks p c = Some out \<longleftrightarrow> filter_stages p c = Inr out"
  by (simp add: filter_stocks_def split: sum.splits)

text \<open>
  C6. With a requested count and a number of months both above 0, the limit-up
  stage keeps, when every history fetch returns, exactly the instruments whose
  history of the trailing months has a number of sessions with a percent change
  of 9.5 or more equal to the requested count; and every instrument of a result
  of the pipeline has exactly that count, not more.
\<close>

theorem limit_up_filter_exact:
  assumes "0 < limit_up_times c" and "0 < months_spin c"
  shows "((\<forall>r \<in> set df. \<exists>h. hist_daily p (code r) (30 * months_spin c) = Inr h) \<longrightarrow>
          limit_up_filter p c df
          = Inr (filter (\<lambda>r. limit_up_count (window_history p c (code r)) = limit_up_times c) df))
       \<and> (filter_stocks p c = Some out \<longrightarrow>
          list_all (\<lambda>r. limit_up_count (window_history p c (code r)) = limit_up_times c) out)"
proof -
  have stage: "limit_up_filter p c rows
         = Inr (filter (\<lambda>r. limit_up_count (window_history p c (code r)) = limit_up_times c) rows)"
    if ok: "\<forall>r \<in> set rows. \<exists>h. hist_daily p (code r) (30 * months_spin c) = Inr h" for rows
  proof -
    have "limit_up_filter p c rows
      = Inr (filter (\<lambda>r. code r \<in> set (map code
               (filter (\<lambda>r. limit_up_count (window_history p c (code r)) = limit_up_times c) rows)))
             rows)"
      using assms
      by (simp only: limit_up_filter_def limit_up_stocks_codes [OF ok assms(1)] ebind_Inr
          simp_thms if_True)
    then show ?thesis
      by (simp only: filter_isin_codes
          [where Q = "\<lambda>s. limit_up_count (window_history p c s) = limit_up_times c"])
  qed
  have pipe: "list_all (\<lambda>r. limit_up_count (window_history p c (code r)) = limit_up_times c) out"
    if "filter_stocks p c = Some out"
  proof -
    from that have "filter_stages p c = Inr out" by (simp add: filter_stocks_Some)
    then obtain rows where l: "limit_up_filter p c rows = Inr out"
      using filter_stages_last by blast
    then obtain codes where "limit_up_stocks p (months_spin c) (limit_up_times c) rows = Inr codes"
      using assms by (auto simp: limit_up_filter_def ebind_Inr_iff)
    then have "\<forall>r \<in> set rows. \<exists>h. hist_daily p (code r) (30 * months_spin c) = Inr h"
      by (rule limit_up_stocks_fetched)
    from stage [OF this] l show ?thesis by (auto simp: list_all_iff)
  qed
  show ?thesis using stage pipe by blast
qed

theorem limit_up_filter_exact_witness:
  "limit_up_filter (history_provider sample_history [])
     (open_criteria\<lparr>limit_up_times := 1, months_spin := 1\<rparr>)
     [stock ''A'' 1, stock ''U1'' 2, stock ''U2'' 3]
   = Inr [stock ''U1'' 2]
   \<and> list_all (\<lambda>r. limit_up_count (window_history
         (history_provider sample_history [stock ''A'' 1, stock ''U1'' 2, stock ''U2'' 3])
         (open_criteria\<lparr>limit_up_times := 1, months_spin := 1\<rparr>) (code r)) = 1)
       [stock ''U1'' 2]"
proof -
  let ?c = "open_criteria\<lparr>limit_up_times := 1, months_spin := 1\<rparr>"
  let ?df = "[stock ''A'' 1, stock ''U1'' 2, stock ''U2'' 3]"
  have h1: "0 < limit_up_times ?c" by (simp add: open_criteria_def)
  have h2: "0 < months_spin ?c" by (simp add: open_criteria_def)
  have h3: "\<forall>r \<in> set ?df.
      \<exists>h. hist_daily (history_provider sample_history []) (code r) (30 * months_spin ?c) = Inr h"
    by (simp add: history_provider_def sample_history_def stock_def)
  have e: "filter (\<lambda>r. limit_up_count (window_history (history_provider sample_history []) ?c
              (code r)) = limit_up_times ?c) ?df = [stock ''U1'' 2]"
    by code_simp
  have f: "filter_stocks (history_provider sample_history ?df) ?c = Some [stock ''U1'' 2]"
    by code_simp
  have t: "limit_up_times ?c = 1" by (simp add: open_criteria_def)
  show ?thesis
    using limit_up_filter_exact [OF h1 h2, of ?df "history_provider sample_history []" "[]"]
      limit_up_filter_exact [OF h1 h2, of "[]" "history_provider sample_history ?df"
        "[stock ''U1'' 2]"] h3 e f t
    by simp
qed





lemma min_above_max_empty:
  "lo > hi \<Longrightarrow> filter (\<lambda>r. key r \<ge> lo \<and> key r \<le> (hi::rat)) df = []"
  by (induction df) auto

lemma range_filters_empty:
  assumes "turnover_min c > turnover_max c \<or> price_change_min c > price_change_max c
     \<or> (volume_ratio_min c > volume_ratio_max c \<and> volume_ratio_max c > 0)
     \<or> price_min c > price_max c \<or> market_cap_min c > market_cap_max c"
  shows "range_filters c df = []"
proof -
  have t: "turnover_range c rows = []" if "turnover_min c > turnover_max c" for rows
    using that by (simp add: turnover_range_def min_above_max_empty)
  have pc: "price_change_range c rows = []" if "price_change_min c > price_change_max c" for rows
    using that by (simp add: price_change_range_def min_above_max_empty)
  have vr: "volume_ratio_range c rows = []"
    if "volume_ratio_min c > volume_ratio_max c" "volume_ratio_max c > 0" for rows
  proof -
    have "filter (\<lambda>r. volume_ratio r \<le> volume_ratio_max c)
            (filter (\<lambda>r. volume_ratio r \<ge> volume_ratio_min c) rows) = []"
      using that(1) by (induction rows) auto
    then show ?thesis using that(2) by (simp add: volume_ratio_range_def)
  qed
  have pr: "price_range c rows = []" if "price_min c > price_max c" for rows
    using that by (simp add: price_range_def min_above_max_empty)
  have mc: "market_cap_range c rows = []" if "market_cap_min c > market_cap_max c" for rows
  proof -
    from that have "market_cap_min c * 100000000 > market_cap_max c * 100000000" by simp
    then show ?thesis by (simp add: market_cap_range_def min_above_max_empty)
  qed
  have e: "turnover_range c [] = []" "price_change_range c [] = []" "volume_ratio_range c [] = []"
    "price_range c [] = []" "market_cap_range c [] = []"
    by (simp_all add: turnover_range_def price_change_range_def volume_ratio_range_def
        price_range_def market_cap_range_def)
  from assms consider "turnover_min c > turnover_max c" | "price_change_min c > price_change_max c"
    | "volume_ratio_min c > volume_ratio_max c \<and> volume_ratio_max c > 0"
    | "price_min c > price_max c" | "market_cap_min c > market_cap_max c" by blast
  then show ?thesis
  proof cases
    case 1 then show ?thesis by (simp add: range_filters_def t e)
  next
    case 2 then show ?thesis by (simp add: range_filters_def pc e)
  next
    case 3 then show ?thesis by (simp add: range_filters_def vr e)
  next
    case 4 then show ?thesis by (simp add: range_filters_def pr e)
  next
    case 5 then show ?thesis by (simp add: range_filters_def mc)
  qed
qed

lemma later_stages_empty:
  "checkbox_filters c [] = []" "volume_increase_filter p c [] = Inr []"
  "technical_filter p c [] = Inr []" "hot_stocks_filter c [] = []"
  "industry_filter c [] = []" "limit_up_filter p c [] = Inr []"
  by (simp_all add: checkbox_filters_def volume_increase_filter_def technical_filter_def
      hot_stocks_filter_def nlargest_def industry_filter_def limit_up_filter_def)

text \<open>
  C8, as stated, fails for the volume-ratio range: with minimum 1 and maximum 0
  the minimum is above the maximum and a snapshot of volume ratio 5 is kept.
\<close>

theorem filter_stocks_volume_ratio_counterexample:
  "volume_ratio_min (open_criteria\<lparr>volume_ratio_min := 1\<rparr>)
     > volume_ratio_max (open_criteria\<lparr>volume_ratio_min := 1\<rparr>)
   \<and> filter_stocks (history_provider sample_history [stock ''A'' 5])
       (open_criteria\<lparr>volume_ratio_min := 1\<rparr>) = Some [stock ''A'' 5]"
  by code_simp

text \<open>
  C8, amended. When the snapshot fetch returns, the pipeline returns the empty
  result if the minimum is above the maximum for turnover rate, percent change,
  price or market capitalisation, or for volume ratio with a maximum above 0.
\<close>

theorem filter_stocks_min_above_max:
  assumes "spot p = Inr df"
    and "turnover_min c > turnover_max c \<or> price_change_min c > price_change_max c
     \<or> (volume_ratio_min c > volume_ratio_max c \<and> volume_ratio_max c > 0)
     \<or> price_min c > price_max c \<or> market_cap_min c > market_cap_max c"
  shows "filter_stocks p c = Some []"
  by (simp add: filter_stocks_def filter_stages_def assms(1) range_filters_empty [OF assms(2)]
      later_stages_empty)

theorem filter_stocks_min_above_max_witness:
  "filter_stocks (history_provider sample_history [stock ''A'' 5, stock ''B'' 3])
     (open_criteria\<lparr>price_min := 10, price_max := 4\<rparr>) = Some []"
proof -
  let ?c = "open_criteria\<lparr>price_min := 10, price_max := 4\<rparr>"
  let ?p = "history_provider sample_history [stock ''A'' 5, stock ''B'' 3]"
  have h1: "spot ?p = Inr [stock ''A'' 5, stock ''B'' 3]" by (simp add: history_provider_def)
  have h2: "turnover_min ?c > turnover_max ?c \<or> price_change_min ?c > price_change_max ?c
     \<or> (volume_ratio_min ?c > volume_ratio_max ?c \<and> volume_ratio_max ?c > 0)
     \<or> price_min ?c > price_max ?c \<or> market_cap_min ?c > market_cap_max ?c"
    by (simp add: open_criteria_def)
  show ?thesis using filter_stocks_min_above_max [OF h1 h2] by simp
qed






section \<open>Properties of the money-flow parser\<close>

lemmas parse_defs = convert_flow_value_def flow_amount_def ascii_def py_strip_def is_space_def
  remove_char_def startswith_char_def unit_yi_def unit_wan_def comma_def minus_def
  float_literal_def unsigned_decimal_def is_digit_def digits_value_def Let_def
  exact_ops_def nan_mul_def

lemmas text_defs = magnitude_text_def cleaned_def negative_def with_sign_def

lemma convert_flow_value_str:
  "convert_flow_value F (PyStr s)
   = (case flow_amount F (magnitude_text s) of
        None \<Rightarrow> of_exact F 0 | Some result \<Rightarrow> with_sign F s result)"
  by (simp add: convert_flow_value_def magnitude_text_def negative_def cleaned_def with_sign_def
      Let_def split: option.splits)

lemma remove_char_absent: "c \<notin> set v \<Longrightarrow> remove_char c v = v"
  by (auto simp: remove_char_def filter_id_conv)

lemma remove_char_last:
  assumes "v \<noteq> []" and "last v = c" and "c \<notin> set (butlast v)"
  shows "remove_char c v = butlast v"
proof -
  have "v = butlast v @ [c]" using assms(1,2) by (metis append_butlast_last_id)
  then have "remove_char c v = remove_char c (butlast v @ [c])" by simp
  also have "\<dots> = butlast v" using assms(3) by (auto simp: remove_char_def filter_id_conv)
  finally show ?thesis .
qed

lemma not_in_butlast_last:
  assumes "c \<notin> set (butlast v)" and "v = [] \<or> last v \<noteq> c"
  shows "c \<notin> set v"
proof (cases "v = []")
  case True
  then show ?thesis by simp
next
  case False
  then have "v = butlast v @ [last v]" by simp
  then have "set v = set (butlast v @ [last v])" by simp
  then have "set v = set (butlast v) \<union> {last v}" by simp
  then show ?thesis using assms False by blast
qed

lemma convert_flow_value_unit_parse:
  "convert_flow_value F (PyStr s) = unit_parse F s"
  by (simp add: convert_flow_value_str flow_amount_def unit_parse_def Let_def
      split: option.splits)

lemma unit_parse_suffix:
  assumes "unit_yi \<notin> set (butlast (magnitude_text s))"
    and "unit_wan \<notin> set (butlast (magnitude_text s))"
  shows "unit_parse F s = suffix_parse F s"
proof -
  define v where "v = magnitude_text s"
  have a1: "unit_yi \<notin> set (butlast v)" and a2: "unit_wan \<notin> set (butlast v)"
    using assms by (simp_all add: v_def)
  have ne: "unit_yi \<noteq> unit_wan" by (simp add: unit_yi_def unit_wan_def)
  have up: "unit_parse F s =
     (if unit_yi \<in> set v then
           (case float_str F (remove_char unit_yi v) of
              None \<Rightarrow> of_exact F 0
            | Some x \<Rightarrow> with_sign F s (fmul F x (of_exact F 100000000)))
         else if unit_wan \<in> set v then
           (case float_str F (remove_char unit_wan v) of
              None \<Rightarrow> of_exact F 0
            | Some x \<Rightarrow> with_sign F s (fmul F x (of_exact F 10000)))
         else (case float_str F v of
                 None \<Rightarrow> of_exact F 0
               | Some x \<Rightarrow> with_sign F s x))"
    by (simp only: unit_parse_def Let_def v_def)
  have sp: "suffix_parse F s =
     (if v \<noteq> [] \<and> last v = unit_yi then
           (case float_str F (butlast v) of
              None \<Rightarrow> of_exact F 0
            | Some x \<Rightarrow> with_sign F s (fmul F x (of_exact F 100000000)))
         else if v \<noteq> [] \<and> last v = unit_wan then
           (case float_str F (butlast v) of
              None \<Rightarrow> of_exact F 0
            | Some x \<Rightarrow> with_sign F s (fmul F x (of_exact F 10000)))
         else (case float_str F v of
                 None \<Rightarrow> of_exact F 0
               | Some x \<Rightarrow> with_sign F s x))"
    by (simp only: suffix_parse_def Let_def v_def)
  consider (yi) "v \<noteq> []" "last v = unit_yi" | (wan) "v \<noteq> []" "last v = unit_wan"
    | (none) "v = [] \<or> (last v \<noteq> unit_yi \<and> last v \<noteq> unit_wan)" by blast
  then show ?thesis
  proof cases
    case yi
    have m: "(unit_yi \<in> set v) = True" using yi last_in_set [of v] by simp
    have r: "remove_char unit_yi v = butlast v"
      by (rule remove_char_last [OF yi a1])
    have c: "(v \<noteq> [] \<and> last v = unit_yi) = True" using yi by simp
    show ?thesis by (simp only: up sp m r c if_True)
  next
    case wan
    have m: "(unit_wan \<in> set v) = True" using wan last_in_set [of v] by simp
    have d: "v = [] \<or> last v \<noteq> unit_yi" using wan ne by simp
    have n: "(unit_yi \<in> set v) = False" using not_in_butlast_last [OF a1 d] by simp
    have r: "remove_char unit_wan v = butlast v"
      by (rule remove_char_last [OF wan a2])
    have c1: "(v \<noteq> [] \<and> last v = unit_yi) = False" using wan ne by simp
    have c2: "(v \<noteq> [] \<and> last v = unit_wan) = True" using wan by simp
    show ?thesis by (simp only: up sp m n r c1 c2 if_True if_False)
  next
    case none
    have d1: "v = [] \<or> last v \<noteq> unit_yi" and d2: "v = [] \<or> last v \<noteq> unit_wan"
      using none by blast+
    have n1: "(unit_yi \<in> set v) = False" using not_in_butlast_last [OF a1 d1] by simp
    have n2: "(unit_wan \<in> set v) = False" using not_in_butlast_last [OF a2 d2] by simp
    have c1: "(v \<noteq> [] \<and> last v = unit_yi) = False" using d1 by blast
    have c2: "(v \<noteq> [] \<and> last v = unit_wan) = False" using d2 by blast
    show ?thesis by (simp only: up sp n1 n2 c1 c2 if_False)
  qed
qed

lemma dropWhile_spaces: "list_all is_space a \<Longrightarrow> dropWhile is_space (a @ s) = dropWhile is_space s"
  by (induction a) simp_all

lemma dropWhile_all: "list_all P xs \<Longrightarrow> dropWhile P xs = []"
  by (induction xs) simp_all

lemma py_strip_spaces:
  assumes "list_all is_space a" and "list_all is_space b"
  shows "py_strip (a @ s @ b) = py_strip s"
proof -
  have b: "list_all is_space (rev b)" using assms(2) by (simp add: list_all_iff)
  have "dropWhile is_space (rev (dropWhile is_space (a @ s @ b)))
      = dropWhile is_space (rev (dropWhile is_space (s @ b)))"
    using assms(1) by (simp only: dropWhile_spaces)
  also have "\<dots> = dropWhile is_space (rev (dropWhile is_space s))"
  proof (cases "list_all is_space s")
    case True
    then have "list_all is_space (s @ b)" using assms(2) by simp
    then have A: "dropWhile is_space (s @ b) = []" by (rule dropWhile_all)
    have B: "dropWhile is_space s = []" using True by (rule dropWhile_all)
    show ?thesis by (simp only: A B)
  next
    case False
    then obtain x where "x \<in> set s" "\<not> is_space x" by (auto simp: list_all_iff)
    then have "dropWhile is_space (s @ b) = dropWhile is_space s @ b"
      by (rule dropWhile_append1)
    then have "rev (dropWhile is_space (s @ b)) = rev b @ rev (dropWhile is_space s)" by simp
    then show ?thesis using b by (simp only: dropWhile_spaces)
  qed
  finally show ?thesis by (simp only: py_strip_def)
qed

text \<open>
  C4, as stated, fails. The text of the digit 1, the hundred-million unit and
  the digit 2 does not end in a unit, so by the claim it is taken as it is;
  \<open>float\<close> cannot read it and the claim gives 0. The code finds the unit inside
  the text, removes it and returns 12 times 1e8, a product binary64 computes
  exactly.
\<close>

theorem convert_flow_value_suffix_counterexample:
  "suffix_parse exact_ops (ascii ''1'' @ [unit_yi] @ ascii ''2'') = Some 0
   \<and> convert_flow_value exact_ops (PyStr (ascii ''1'' @ [unit_yi] @ ascii ''2''))
     = Some 1200000000"
  by (simp add: suffix_parse_def text_defs parse_defs)

text \<open>
  C4, amended. On every string \<open>convert_flow_value\<close> ignores surrounding
  whitespace, removes the thousands separators, takes a leading minus sign off
  before the unit is parsed and puts it back on the result, and looks for the
  unit anywhere in the text: when the text holds the hundred-million unit, each
  occurrence is removed and the number \<open>float\<close> reads from the rest is multiplied
  by 1e8; otherwise, when it holds the ten-thousand unit, likewise by 1e4;
  otherwise the number read from the text is returned as it is; and when
  \<open>float\<close> cannot read the text the result is 0. Nothing is raised. On every
  string whose text has no unit character before its last position this is the
  parse of the specification, the unit being a suffix. The product and the
  negation are those of the floating-point operations. The three examples of
  the specification evaluate to 1.5e8, -2e7 and 0.
\<close>

theorem convert_flow_value_parse:
  "convert_flow_value F (PyStr s) = unit_parse F s
   \<and> (unit_yi \<notin> set (butlast (magnitude_text s)) \<and> unit_wan \<notin> set (butlast (magnitude_text s))
      \<longrightarrow> convert_flow_value F (PyStr s) = suffix_parse F s)
   \<and> (list_all is_space a \<and> list_all is_space b \<longrightarrow>
      convert_flow_value F (PyStr (a @ s @ b)) = convert_flow_value F (PyStr s))
   \<and> comma \<notin> set (cleaned s)
   \<and> convert_flow_value exact_ops (PyStr (ascii ''1.5'' @ [unit_yi])) = Some 150000000
   \<and> convert_flow_value exact_ops (PyStr (ascii ''-2000'' @ [unit_wan])) = Some (- 20000000)
   \<and> convert_flow_value exact_ops (PyStr (ascii ''abc'')) = Some 0"
proof -
  have u: "convert_flow_value F (PyStr s) = unit_parse F s"
    by (rule convert_flow_value_unit_parse)
  have sfx: "unit_yi \<notin> set (butlast (magnitude_text s))
      \<and> unit_wan \<notin> set (butlast (magnitude_text s))
      \<longrightarrow> convert_flow_value F (PyStr s) = suffix_parse F s"
    using unit_parse_suffix [of s F] by (simp only: u) blast
  have ws: "list_all is_space a \<and> list_all is_space b \<longrightarrow>
      convert_flow_value F (PyStr (a @ s @ b)) = convert_flow_value F (PyStr s)"
    by (simp add: convert_flow_value_def py_strip_spaces)
  have cm: "comma \<notin> set (cleaned s)"
    by (simp add: cleaned_def remove_char_def)
  have e1: "convert_flow_value exact_ops (PyStr (ascii ''1.5'' @ [unit_yi])) = Some 150000000"
    by (simp add: parse_defs)
  have e2: "convert_flow_value exact_ops (PyStr (ascii ''-2000'' @ [unit_wan]))
      = Some (- 20000000)"
    by (simp add: parse_defs)
  have e3: "convert_flow_value exact_ops (PyStr (ascii ''abc'')) = Some 0"
    by (simp add: parse_defs)
  from u sfx ws cm e1 e2 e3 show ?thesis by (intro conjI)
qed

theorem convert_flow_value_parse_witness:
  "convert_flow_value exact_ops (PyStr (ascii '' 5 ''))
     = convert_flow_value exact_ops (PyStr (ascii ''5''))
   \<and> convert_flow_value exact_ops (PyStr (ascii ''-1.5'' @ [unit_yi]))
     = suffix_parse exact_ops (ascii ''-1.5'' @ [unit_yi])
   \<and> suffix_parse exact_ops (ascii ''-1.5'' @ [unit_yi]) = Some (- 150000000)"
proof -
  have w: "list_all is_space (ascii '' '')" by (simp add: ascii_def is_space_def)
  have c1: "convert_flow_value exact_ops (PyStr (ascii '' 5 ''))
      = convert_flow_value exact_ops (PyStr (ascii ''5''))"
    using mp [OF convert_flow_value_parse [where a = "ascii '' ''" and b = "ascii '' ''"
          and s = "ascii ''5''" and F = exact_ops, THEN conjunct2, THEN conjunct2,
          THEN conjunct1]] w
    by (simp add: ascii_def)
  have y: "unit_yi \<notin> set (butlast (magnitude_text (ascii ''-1.5'' @ [unit_yi])))
      \<and> unit_wan \<notin> set (butlast (magnitude_text (ascii ''-1.5'' @ [unit_yi])))"
    by (simp add: text_defs parse_defs)
  have c2: "convert_flow_value exact_ops (PyStr (ascii ''-1.5'' @ [unit_yi]))
     = suffix_parse exact_ops (ascii ''-1.5'' @ [unit_yi])"
    by (rule mp [OF convert_flow_value_parse [where s = "ascii ''-1.5'' @ [unit_yi]"
          and F = exact_ops, THEN conjunct2, THEN conjunct1] y])
  have c3: "suffix_parse exact_ops (ascii ''-1.5'' @ [unit_yi]) = Some (- 150000000)"
    by (simp add: suffix_parse_def text_defs parse_defs)
  from c1 c2 c3 show ?thesis by (intro conjI)
qed

end
